theory Spec2Isabelle
  imports Main "HOL-Library.Word"
begin

section \<open>JavaScript values, errors and strings\<close>

text \<open>
  The repository holds two implementations of the same worker: \<^verbatim>\<open>src/lib.ts\<close> (the class
  \<^verbatim>\<open>YoutubeNotifier\<close>, driven by the router in \<^verbatim>\<open>unnamed/part_000\<close>) and
  \<^verbatim>\<open>src/utils.ts\<close> (free functions, driven by the router in \<^verbatim>\<open>unnamed/part_001\<close>).
  Both are embedded; a definition taken from \<^verbatim>\<open>lib.ts\<close> is prefixed \<open>lib_\<close>, one from
  \<^verbatim>\<open>utils.ts\<close> \<open>utils_\<close>, one from \<^verbatim>\<open>part_001\<close> \<open>part001_\<close>.

  A thrown exception (a rejected promise that is awaited) is the \<open>Inl\<close> of a sum.
\<close>

datatype js_error =
    Error string          \<comment> \<open>\<^verbatim>\<open>new Error(message)\<close>\<close>
  | TypeError             \<comment> \<open>property read on undefined/null, call of a non-function\<close>
  | SyntaxError           \<comment> \<open>\<^verbatim>\<open>JSON.parse\<close> on a text that is not JSON\<close>
  | NotSupportedError     \<comment> \<open>WebCrypto: unrecognised algorithm name\<close>
  | DataError             \<comment> \<open>WebCrypto: unusable key data\<close>
  | NetworkError          \<comment> \<open>\<^verbatim>\<open>fetch\<close> rejected: the call itself failed\<close>

text \<open>
  Numbers as \<^verbatim>\<open>JSON.parse\<close>, the XML parser and \<^verbatim>\<open>Date.now()\<close> produce them: a finite
  number, negative zero, and the two infinities (\<^verbatim>\<open>JSON.parse\<close> reads a literal beyond the
  range of a double, such as \<^verbatim>\<open>1e400\<close>, as \<^verbatim>\<open>Infinity\<close>). The code stores, prints and compares
  numbers and computes with none but times, which are integers; a finite number is
  therefore taken as an integer. \<^verbatim>\<open>NaN\<close> is produced by no parser; where a time can be
  \<^verbatim>\<open>NaN\<close> it is an \<open>int option\<close>.
\<close>

datatype number = Finite int | NegZero | Infinity | NegInfinity

text \<open>
  Values as the code meets them: what \<^verbatim>\<open>JSON.parse\<close> and the XML parser return, plus
  \<^verbatim>\<open>undefined\<close> and \<^verbatim>\<open>Date\<close> objects (a valid date, by its epoch milliseconds). An object
  is its list of own properties, read first match first.
\<close>

datatype jsval =
    JUndefined
  | JNull
  | JBool bool
  | JNum number
  | JStr string
  | JDate int
  | JArr "jsval list"
  | JObj "(string \<times> jsval) list"

text \<open>Strings are ASCII texts; case mapping changes the 26 letters only.\<close>

definition toLowerCase_char :: "char \<Rightarrow> char" where
  "toLowerCase_char c =
     (case map_of (zip ''ABCDEFGHIJKLMNOPQRSTUVWXYZ'' ''abcdefghijklmnopqrstuvwxyz'') c of
        None \<Rightarrow> c | Some d \<Rightarrow> d)"

definition toUpperCase_char :: "char \<Rightarrow> char" where
  "toUpperCase_char c =
     (case map_of (zip ''abcdefghijklmnopqrstuvwxyz'' ''ABCDEFGHIJKLMNOPQRSTUVWXYZ'') c of
        None \<Rightarrow> c | Some d \<Rightarrow> d)"

definition toLowerCase :: "string \<Rightarrow> string" where
  "toLowerCase s = map toLowerCase_char s"

definition toUpperCase :: "string \<Rightarrow> string" where
  "toUpperCase s = map toUpperCase_char s"

text \<open>\<^verbatim>\<open>s.split(sep)\<close> for a one-character separator: never empty, \<^verbatim>\<open>"".split("=")\<close> is \<^verbatim>\<open>[""]\<close>.\<close>

primrec String_split :: "char \<Rightarrow> string \<Rightarrow> string list" where
  "String_split sep [] = [[]]"
| "String_split sep (c # cs) =
     (if c = sep then [] # String_split sep cs
      else (case String_split sep cs of [] \<Rightarrow> [[c]] | p # ps \<Rightarrow> (c # p) # ps))"

text \<open>\<^verbatim>\<open>s.replace(pat, rep)\<close> for a string pattern: the first occurrence only.\<close>

primrec String_replace :: "string \<Rightarrow> string \<Rightarrow> string \<Rightarrow> string" where
  "String_replace pat rep [] = (if pat = [] then rep else [])"
| "String_replace pat rep (c # cs) =
     (if take (length pat) (c # cs) = pat then rep @ drop (length pat) (c # cs)
      else c # String_replace pat rep cs)"

text \<open>
  \<^verbatim>\<open>n.toString(16)\<close>, and \<^verbatim>\<open>String(n)\<close> for an integer \<open>n\<close> that JavaScript prints with all its
  digits (one below \<^verbatim>\<open>1e21\<close> in magnitude, as every time is); \<^verbatim>\<open>s.padStart(n, c)\<close>.
\<close>

definition digitChar :: "nat \<Rightarrow> char" where
  "digitChar n = ''0123456789abcdef'' ! (n mod 16)"

fun toString16 :: "nat \<Rightarrow> string" where
  "toString16 n =
     (if n < 16 then [digitChar n] else toString16 (n div 16) @ [digitChar (n mod 16)])"

fun toString10 :: "nat \<Rightarrow> string" where
  "toString10 n =
     (if n < 10 then [digitChar n] else toString10 (n div 10) @ [digitChar (n mod 10)])"

declare toString16.simps [simp del] toString10.simps [simp del]

definition Number_toString :: "int \<Rightarrow> string" where
  "Number_toString i = (if i < 0 then CHR ''-'' # toString10 (nat (- i)) else toString10 (nat i))"

text \<open>\<^verbatim>\<open>String(n)\<close> of a number.\<close>

definition String_of_number :: "number \<Rightarrow> string" where
  "String_of_number n =
     (case n of
        Finite i \<Rightarrow> Number_toString i
      | NegZero \<Rightarrow> ''0''
      | Infinity \<Rightarrow> ''Infinity''
      | NegInfinity \<Rightarrow> ''-Infinity'')"

definition padStart :: "nat \<Rightarrow> char \<Rightarrow> string \<Rightarrow> string" where
  "padStart n c s = replicate (n - length s) c @ s"

fun join :: "string \<Rightarrow> string list \<Rightarrow> string" where
  "join sep [] = []"
| "join sep [s] = s"
| "join sep (s # t # ss) = s @ sep @ join sep (t # ss)"

section \<open>The platform: what the worker calls and does not define\<close>

text \<open>
  A request handed to \<^verbatim>\<open>fetch\<close>: the URL, the method, the headers and the body. A
  \<^verbatim>\<open>URLSearchParams\<close> body is its list of fields; a \<^verbatim>\<open>JSON.stringify\<close> body the value.
\<close>

datatype http_body = Form "(string \<times> string) list" | Json jsval

record request =
  req_url :: string
  req_method :: string
  req_headers :: "(string \<times> string) list"
  req_body :: http_body

text \<open>What \<^verbatim>\<open>fetch\<close> settles to: it rejects, or resolves to a response with a status.\<close>

datatype fetch_result = Rejected | Response nat

definition response_ok :: "nat \<Rightarrow> bool" where
  "response_ok status = (200 \<le> status \<and> status \<le> 299)"

text \<open>
  The functions of the runtime and of the libraries, taken as parameters:
  WebCrypto's \<^verbatim>\<open>subtle.importKey("raw", key, {name: "HMAC", hash: {name}}, ...)\<close> by the hash name
  and the key text, \<^verbatim>\<open>subtle.sign\<close> (the bytes of the MAC), fast-xml-parser's
  \<^verbatim>\<open>XMLParser.parse\<close> (the flag says whether a validation option was passed, which makes it
  validate first and throw), \<^verbatim>\<open>Date\<close> parsing and printing, \<^verbatim>\<open>dedent\<close>, the clock and the
  network. The clock and the network are asked at a tick: the number of awaited
  input/output operations so far.
\<close>

record 'k platform =
  subtle_importKey :: "string \<Rightarrow> string \<Rightarrow> js_error + 'k"
  subtle_sign :: "'k \<Rightarrow> string \<Rightarrow> 8 word list"
  XMLParser_parse :: "bool \<Rightarrow> string \<Rightarrow> js_error + jsval"
  Date_parse :: "string \<Rightarrow> int option"
  Date_toISOString :: "int \<Rightarrow> string"
  Date_toString :: "int \<Rightarrow> string"
  dedent :: "string \<Rightarrow> string"
  Date_now :: "nat \<Rightarrow> int"
  fetch :: "nat \<Rightarrow> request \<Rightarrow> fetch_result"

section \<open>Signature verification\<close>

text \<open>
  The hex rendering both versions share:
  \<^verbatim>\<open>Array.from(new Uint8Array(buf)).map((b) => b.toString(16).padStart(2, "0")).join("")\<close>.
\<close>

definition signatureHex :: "8 word list \<Rightarrow> string" where
  "signatureHex bytes = concat (map (\<lambda>b. padStart 2 CHR ''0'' (toString16 (unat b))) bytes)"

text \<open>
  \<^verbatim>\<open>lib.ts\<close>, \<^verbatim>\<open>verifyNotificationSignature\<close>. The destructuring
  \<^verbatim>\<open>[algo, matchingParts] = signature.split("=")\<close> leaves \<^verbatim>\<open>matchingParts\<close> undefined when the
  header has no \<^verbatim>\<open>=\<close>; \<^verbatim>\<open>matchingParts.toLowerCase()\<close> then throws, after the key import and
  the signing.
\<close>

definition lib_verifyNotificationSignature ::
  "'k platform \<Rightarrow> string \<Rightarrow> string \<Rightarrow> string \<Rightarrow> js_error + bool" where
  "lib_verifyNotificationSignature P secret signature xml =
     (case String_split CHR ''='' signature of
        [] \<Rightarrow> Inl TypeError
      | algo # rest \<Rightarrow>
          (case subtle_importKey P (String_replace ''SHA'' ''SHA-'' (toUpperCase algo)) secret of
             Inl e \<Rightarrow> Inl e
           | Inr key \<Rightarrow>
               (case rest of
                  [] \<Rightarrow> Inl TypeError
                | matchingParts # _ \<Rightarrow>
                    Inr (toLowerCase (signatureHex (subtle_sign P key xml))
                         = toLowerCase matchingParts))))"

text \<open>
  \<^verbatim>\<open>utils.ts\<close>, \<^verbatim>\<open>verifyNotificationSignature\<close>: both parts are lower-cased, the hash name is
  the upper-cased algorithm as it stands, and an undefined \<^verbatim>\<open>matchingParts\<close> compares unequal.
\<close>

definition utils_verifyNotificationSignature ::
  "'k platform \<Rightarrow> string \<Rightarrow> string \<Rightarrow> string \<Rightarrow> js_error + bool" where
  "utils_verifyNotificationSignature P secret signature xml =
     (case map toLowerCase (String_split CHR ''='' signature) of
        [] \<Rightarrow> Inl TypeError
      | algo # rest \<Rightarrow>
          (case subtle_importKey P (toUpperCase algo) secret of
             Inl e \<Rightarrow> Inl e
           | Inr key \<Rightarrow>
               (case rest of
                  [] \<Rightarrow> Inr False
                | matchingParts # _ \<Rightarrow>
                    Inr (toLowerCase (signatureHex (subtle_sign P key xml)) = matchingParts))))"

section \<open>Reading values\<close>

text \<open>
  \<^verbatim>\<open>v[key]\<close>: a \<^verbatim>\<open>TypeError\<close> on undefined and null, the own property of an object, and
  undefined otherwise. Inherited members are not modelled; the one the code can reach,
  \<^verbatim>\<open>String.prototype.link\<close>, is handled where it is read.
\<close>

fun js_get :: "jsval \<Rightarrow> string \<Rightarrow> js_error + jsval" where
  "js_get JUndefined key = Inl TypeError"
| "js_get JNull key = Inl TypeError"
| "js_get (JObj kvs) key = Inr (case map_of kvs key of None \<Rightarrow> JUndefined | Some v \<Rightarrow> v)"
| "js_get v key = Inr JUndefined"

fun truthy :: "jsval \<Rightarrow> bool" where
  "truthy JUndefined = False"
| "truthy JNull = False"
| "truthy (JBool b) = b"
| "truthy (JNum n) = (n \<noteq> Finite 0 \<and> n \<noteq> NegZero)"
| "truthy (JStr s) = (s \<noteq> [])"
| "truthy v = True"

text \<open>
  \<^verbatim>\<open>String(v)\<close>, which is also what a template literal and \<^verbatim>\<open>"..." + v\<close> make of a value. An
  array joins its elements with commas, null and undefined elements printing as nothing.
\<close>

primrec js_String :: "'k platform \<Rightarrow> jsval \<Rightarrow> string" where
  "js_String P JUndefined = ''undefined''"
| "js_String P JNull = ''null''"
| "js_String P (JBool b) = (if b then ''true'' else ''false'')"
| "js_String P (JNum n) = String_of_number n"
| "js_String P (JStr s) = s"
| "js_String P (JDate t) = Date_toString P t"
| "js_String P (JArr xs) =
     join '','' (map (\<lambda>(x, s). if x = JUndefined \<or> x = JNull then [] else s)
                    (zip xs (map (js_String P) xs)))"
| "js_String P (JObj kvs) = ''[object Object]''"

text \<open>\<^verbatim>\<open>new Date(v).getTime()\<close>; \<open>None\<close> is \<^verbatim>\<open>NaN\<close>, the time of an invalid date.\<close>

definition new_Date :: "'k platform \<Rightarrow> jsval \<Rightarrow> int option" where
  "new_Date P v =
     (case v of
        JUndefined \<Rightarrow> None
      | JNull \<Rightarrow> Some 0
      | JBool b \<Rightarrow> Some (if b then 1 else 0)
      | JNum n \<Rightarrow>
          (case n of
             Finite i \<Rightarrow> if \<bar>i\<bar> \<le> 8640000000000000 then Some i else None
           | NegZero \<Rightarrow> Some 0
           | _ \<Rightarrow> None)
      | JDate t \<Rightarrow> Some t
      | _ \<Rightarrow> Date_parse P (js_String P v))"

text \<open>
  \<^verbatim>\<open>JSON.parse(JSON.stringify(v))\<close>: a finite number is written so that it reads back as
  itself, negative zero is written \<^verbatim>\<open>0\<close> and an infinity \<^verbatim>\<open>null\<close>; a date becomes its ISO
  string, an undefined array element null, an undefined property is dropped.
\<close>

primrec toJSON :: "'k platform \<Rightarrow> jsval \<Rightarrow> jsval" where
  "toJSON P JUndefined = JUndefined"
| "toJSON P JNull = JNull"
| "toJSON P (JBool b) = JBool b"
| "toJSON P (JNum n) =
     (case n of
        Finite i \<Rightarrow> JNum (Finite i)
      | NegZero \<Rightarrow> JNum (Finite 0)
      | _ \<Rightarrow> JNull)"
| "toJSON P (JStr s) = JStr s"
| "toJSON P (JDate t) = JStr (Date_toISOString P t)"
| "toJSON P (JArr xs) =
     JArr (map (\<lambda>x. if x = JUndefined then JNull else x) (map (toJSON P) xs))"
| "toJSON P (JObj kvs) =
     JObj (filter (\<lambda>kv. snd kv \<noteq> JUndefined) (map (map_prod id (toJSON P)) kvs))"

section \<open>The world: storage, time and the requests sent\<close>

record env =
  API_SECRET :: string
  APP_DOMAIN :: string
  DISCORD_WEBHOOK_URL :: string

text \<open>
  A text stored in the KV namespace, identified with what \<^verbatim>\<open>JSON.parse\<close> makes of it:
  \<open>Raw s\<close> is a text \<open>s\<close> that is not JSON (\<^verbatim>\<open>JSON.parse\<close> throws), \<open>Doc v\<close> a text that parses
  to \<open>v\<close>. The empty text is \<open>Raw []\<close>, the only falsy one.
\<close>

datatype blob = Raw string | Doc jsval

record world =
  KV :: "string \<Rightarrow> blob option"
  ticks :: nat
  sent :: "request list"

type_synonym 'a io = "world \<Rightarrow> (js_error + 'a) \<times> world"

definition return :: "'a \<Rightarrow> 'a io" where
  "return x w = (Inr x, w)"

definition throw :: "js_error \<Rightarrow> 'a io" where
  "throw e w = (Inl e, w)"

definition bind :: "'a io \<Rightarrow> ('a \<Rightarrow> 'b io) \<Rightarrow> 'b io" where
  "bind m f w = (case m w of (Inl e, w') \<Rightarrow> (Inl e, w') | (Inr x, w') \<Rightarrow> f x w')"

definition lift :: "js_error + 'a \<Rightarrow> 'a io" where
  "lift r = (case r of Inl e \<Rightarrow> throw e | Inr x \<Rightarrow> return x)"

text \<open>The KV binding; storage itself does not fail in this model.\<close>

definition KV_get :: "string \<Rightarrow> blob option io" where
  "KV_get key w = (Inr (KV w key), w\<lparr>ticks := Suc (ticks w)\<rparr>)"

definition KV_put :: "string \<Rightarrow> blob \<Rightarrow> unit io" where
  "KV_put key b w = (Inr (), w\<lparr>KV := (KV w)(key \<mapsto> b), ticks := Suc (ticks w)\<rparr>)"

definition KV_delete :: "string \<Rightarrow> unit io" where
  "KV_delete key w = (Inr (), w\<lparr>KV := (KV w)(key := None), ticks := Suc (ticks w)\<rparr>)"

definition JSON_parse :: "blob \<Rightarrow> js_error + jsval" where
  "JSON_parse b = (case b of Raw s \<Rightarrow> Inl SyntaxError | Doc v \<Rightarrow> Inr v)"

definition JSON_stringify :: "'k platform \<Rightarrow> jsval \<Rightarrow> blob" where
  "JSON_stringify P v = Doc (toJSON P v)"

text \<open>\<^verbatim>\<open>new Date()\<close>, \<^verbatim>\<open>Date.now()\<close>: the clock at the current tick.\<close>

definition now :: "'k platform \<Rightarrow> int io" where
  "now P w = (Inr (Date_now P (ticks w)), w)"

text \<open>
  \<^verbatim>\<open>await fetch(r)\<close>: the request is sent, a tick passes, and a rejection is thrown.
  \<^verbatim>\<open>fetch(r)\<close> whose promise is dropped: the request is issued and nothing is waited for.
\<close>

definition await_fetch :: "'k platform \<Rightarrow> request \<Rightarrow> nat io" where
  "await_fetch P r w =
     (let w' = w\<lparr>ticks := Suc (ticks w), sent := sent w @ [r]\<rparr> in
      case fetch P (ticks w) r of
        Rejected \<Rightarrow> (Inl NetworkError, w')
      | Response status \<Rightarrow> (Inr status, w'))"

definition dropped_fetch :: "request \<Rightarrow> unit io" where
  "dropped_fetch r w = (Inr (), w\<lparr>sent := sent w @ [r]\<rparr>)"

section \<open>Hub client\<close>

definition BASE_TOPIC_URL :: string where
  "BASE_TOPIC_URL = ''https://www.youtube.com/xml/feeds/videos.xml?channel_id=''"

definition HUB_URL :: string where
  "HUB_URL = ''https://pubsubhubbub.appspot.com/subscribe''"

definition hub_request :: "string \<Rightarrow> string \<Rightarrow> string \<Rightarrow> string \<Rightarrow> request" where
  "hub_request channelId mode secret callbackUrl =
     \<lparr>req_url = HUB_URL, req_method = ''POST'',
      req_headers = [(''Content-Type'', ''application/x-www-form-urlencoded'')],
      req_body = Form [(''hub.callback'', callbackUrl), (''hub.mode'', mode),
                       (''hub.topic'', BASE_TOPIC_URL @ channelId), (''hub.secret'', secret),
                       (''hub.verify'', ''sync'')]\<rparr>"

text \<open>\<^verbatim>\<open>requestSubscription\<close>, the same text in \<^verbatim>\<open>lib.ts\<close> and \<^verbatim>\<open>utils.ts\<close>.\<close>

definition requestSubscription ::
  "'k platform \<Rightarrow> string \<Rightarrow> string \<Rightarrow> string \<Rightarrow> string \<Rightarrow> bool io" where
  "requestSubscription P channelId mode secret callbackUrl =
     bind (await_fetch P (hub_request channelId mode secret callbackUrl))
       (\<lambda>status. if \<not> response_ok status then return False else return True)"

section \<open>Outbound messages\<close>

definition discord_request :: "string \<Rightarrow> string \<Rightarrow> request" where
  "discord_request webhookUrl message =
     \<lparr>req_url = webhookUrl, req_method = ''POST'',
      req_headers = [(''Content-Type'', ''application/json'')],
      req_body = Json (JObj [(''content'', JStr message)])\<rparr>"

text \<open>\<^verbatim>\<open>discordLog\<close>, awaited, and called with its promise dropped (as both renewal loops do).\<close>

definition discordLog :: "'k platform \<Rightarrow> string \<Rightarrow> string \<Rightarrow> unit io" where
  "discordLog P webhookUrl message =
     bind (await_fetch P (discord_request webhookUrl message)) (\<lambda>_. return ())"

definition discordLog_dropped :: "string \<Rightarrow> string \<Rightarrow> unit io" where
  "discordLog_dropped webhookUrl message = dropped_fetch (discord_request webhookUrl message)"

text \<open>
  The notification record \<^verbatim>\<open>{video: {id, title, link}, channel: {id, name, link}, published,
  updated}\<close>, flattened. In \<^verbatim>\<open>lib.ts\<close> the schema has made the texts strings and the times
  integers; \<^verbatim>\<open>part_001\<close> passes whatever it read, and times that may be \<^verbatim>\<open>NaN\<close>.
\<close>

record ('s, 'n) VideoData =
  video_id :: 's
  video_title :: 's
  video_link :: 's
  channel_id :: 's
  channel_name :: 's
  channel_link :: 's
  published :: 'n
  updated :: 'n

definition nl :: string where
  "nl = [CHR 0x0A]"

definition lib_sendDiscordNotification ::
  "'k platform \<Rightarrow> string \<Rightarrow> (string, int) VideoData \<Rightarrow> unit io" where
  "lib_sendDiscordNotification P webhookUrl video =
     discordLog P webhookUrl
       (join nl
          [''New video from ['' @ channel_name video @ '']('' @ channel_link video @ '')'',
           ''**'' @ video_title video @ ''**'',
           '' '' @ video_link video,
           [],
           ''Published at <t:'' @ Number_toString (published video div 1000) @ '':f>'',
           ''Updated at <t:'' @ Number_toString (updated video div 1000) @ '':f>''])"

definition floor_seconds :: "int option \<Rightarrow> string" where
  "floor_seconds t = (case t of None \<Rightarrow> ''NaN'' | Some ms \<Rightarrow> Number_toString (ms div 1000))"

definition utils_sendDiscordNotification ::
  "'k platform \<Rightarrow> env \<Rightarrow> (jsval, int option) VideoData \<Rightarrow> unit io" where
  "utils_sendDiscordNotification P e video =
     discordLog P (DISCORD_WEBHOOK_URL e)
       (dedent P
          (''New video from ['' @ js_String P (channel_name video) @ '']('' @
             js_String P (channel_link video) @ '')'' @ nl @
           ''    **'' @ js_String P (video_title video) @ ''**'' @ nl @
           ''    '' @ (if video_link video = JUndefined \<or> video_link video = JNull
                       then ''*Link unavailable*'' else js_String P (video_link video)) @ nl @
           ''    '' @ nl @
           ''    Published at <t:'' @ floor_seconds (published video) @ '':f>'' @ nl @
           ''    Updated at <t:'' @ floor_seconds (updated video) @ '':f>''))"

section \<open>Subscription registry of \<^verbatim>\<open>lib.ts\<close>\<close>

text \<open>
  A stored \<^verbatim>\<open>Subscription\<close> of \<^verbatim>\<open>lib.ts\<close>, \<^verbatim>\<open>{channelId: string; lastSubscribed: Date}\<close>, as
  \<^verbatim>\<open>JSON.stringify\<close> writes it: the date is its ISO text. A pair is (channelId, lastSubscribed).
\<close>

definition Subscription_json :: "string \<times> string \<Rightarrow> jsval" where
  "Subscription_json s = JObj [(''channelId'', JStr (fst s)), (''lastSubscribed'', JStr (snd s))]"

text \<open>
  \<^verbatim>\<open>getAllSubscriptions\<close>: \<^verbatim>\<open>JSON.parse((await KV.get("subscriptions")) || "[]")\<close>, cast and not
  checked, so it returns whatever value the stored text holds.
\<close>

definition or_default :: "blob option \<Rightarrow> blob \<Rightarrow> blob" where
  "or_default stored d = (case stored of None \<Rightarrow> d | Some b \<Rightarrow> if b = Raw [] then d else b)"

definition lib_getAllSubscriptions :: "jsval io" where
  "lib_getAllSubscriptions =
     bind (KV_get ''subscriptions'')
       (\<lambda>stored. lift (JSON_parse (or_default stored (Doc (JArr [])))))"

text \<open>
  Array methods on a value that was never checked to be an array: \<^verbatim>\<open>.find\<close> and
  \<^verbatim>\<open>.filter\<close> exist on arrays only, and their callbacks read \<^verbatim>\<open>s.channelId\<close>.
\<close>

definition as_Array :: "jsval \<Rightarrow> js_error + jsval list" where
  "as_Array v = (case v of JArr xs \<Rightarrow> Inr xs | _ \<Rightarrow> Inl TypeError)"

fun Array_find_channelId :: "string \<Rightarrow> jsval list \<Rightarrow> js_error + jsval" where
  "Array_find_channelId channelId [] = Inr JUndefined"
| "Array_find_channelId channelId (s # ss) =
     (case js_get s ''channelId'' of
        Inl e \<Rightarrow> Inl e
      | Inr v \<Rightarrow> if v = JStr channelId then Inr s else Array_find_channelId channelId ss)"

fun Array_filter_channelId :: "string \<Rightarrow> jsval list \<Rightarrow> js_error + jsval list" where
  "Array_filter_channelId channelId [] = Inr []"
| "Array_filter_channelId channelId (s # ss) =
     (case js_get s ''channelId'' of
        Inl e \<Rightarrow> Inl e
      | Inr v \<Rightarrow>
          (case Array_filter_channelId channelId ss of
             Inl e \<Rightarrow> Inl e
           | Inr rest \<Rightarrow> Inr (if v \<noteq> JStr channelId then s # rest else rest)))"

definition lib_addSubscription :: "'k platform \<Rightarrow> env \<Rightarrow> string \<Rightarrow> unit io" where
  "lib_addSubscription P e channelId =
     bind lib_getAllSubscriptions (\<lambda>subscriptions.
     bind (lift (as_Array subscriptions)) (\<lambda>items.
     bind (lift (Array_find_channelId channelId items)) (\<lambda>found.
     if truthy found then return ()
     else
       bind (requestSubscription P channelId ''subscribe'' (API_SECRET e)
               (''https://'' @ APP_DOMAIN e @ ''/callback'')) (\<lambda>subscribed.
       if \<not> subscribed then throw (Error ''Failed to subscribe'')
       else
         bind (now P) (\<lambda>t.
         KV_put ''subscriptions''
           (JSON_stringify P
              (JArr (items @ [JObj [(''channelId'', JStr channelId),
                                    (''lastSubscribed'', JDate t)]]))))))))"

definition lib_removeSubscription :: "'k platform \<Rightarrow> env \<Rightarrow> string \<Rightarrow> unit io" where
  "lib_removeSubscription P e channelId =
     bind lib_getAllSubscriptions (\<lambda>subscriptions.
     bind (lift (as_Array subscriptions)) (\<lambda>items.
     bind (lift (Array_find_channelId channelId items)) (\<lambda>found.
     if \<not> truthy found then return ()
     else
       bind (requestSubscription P channelId ''unsubscribe'' (API_SECRET e)
               (''https://'' @ APP_DOMAIN e @ ''/callback'')) (\<lambda>unsubscribed.
       if \<not> unsubscribed then throw (Error ''Failed to unsubscribe'')
       else
         bind (lift (Array_filter_channelId channelId items)) (\<lambda>updatedSubscriptions.
         KV_put ''subscriptions'' (JSON_stringify P (JArr updatedSubscriptions)))))))"

text \<open>
  \<^verbatim>\<open>renewAll\<close>. \<^verbatim>\<open>for (const subscription of subscriptions)\<close> iterates an array, or the
  characters of a string; any other stored value is not iterable. The loop body is
  \<open>lib_renew_loop\<close>, with the list built so far as its accumulator.
\<close>

definition js_iterate :: "jsval \<Rightarrow> js_error + jsval list" where
  "js_iterate v =
     (case v of JArr xs \<Rightarrow> Inr xs | JStr s \<Rightarrow> Inr (map (\<lambda>c. JStr [c]) s) | _ \<Rightarrow> Inl TypeError)"

fun lib_renew_loop :: "'k platform \<Rightarrow> env \<Rightarrow> jsval list \<Rightarrow> jsval list \<Rightarrow> jsval list io" where
  "lib_renew_loop P e [] updatedSubscriptions = return updatedSubscriptions"
| "lib_renew_loop P e (subscription # rest) updatedSubscriptions =
     bind (lift (js_get subscription ''channelId'')) (\<lambda>channelId.
     bind (requestSubscription P (js_String P channelId) ''subscribe'' (API_SECRET e)
             (''https://'' @ APP_DOMAIN e @ ''/callback'')) (\<lambda>subscribed.
     bind (if \<not> subscribed
           then discordLog_dropped (DISCORD_WEBHOOK_URL e)
                  (''Failed to renew subscription for '' @ js_String P channelId)
           else return ()) (\<lambda>_.
     bind (now P) (\<lambda>t.
     lib_renew_loop P e rest
       (updatedSubscriptions @ [JObj [(''channelId'', channelId), (''lastSubscribed'', JDate t)]])))))"

definition lib_renewAll :: "'k platform \<Rightarrow> env \<Rightarrow> unit io" where
  "lib_renewAll P e =
     bind lib_getAllSubscriptions (\<lambda>subscriptions.
     bind (lift (js_iterate subscriptions)) (\<lambda>items.
     bind (lib_renew_loop P e items []) (\<lambda>updatedSubscriptions.
     KV_put ''subscriptions'' (JSON_stringify P (JArr updatedSubscriptions)))))"

text \<open>
  What one round of either renewal loop hands to \<^verbatim>\<open>fetch\<close> for the channel \<open>c\<close> when the hub
  is asked at tick \<open>t\<close>: the hub request, then one failure report if the hub's answer is
  not a success. Used to state what a whole pass sends.
\<close>

definition renew_requests :: "'k platform \<Rightarrow> env \<Rightarrow> nat \<Rightarrow> string \<Rightarrow> request list" where
  "renew_requests P e t c =
     hub_request c ''subscribe'' (API_SECRET e) (''https://'' @ APP_DOMAIN e @ ''/callback'')
     # (case fetch P t (hub_request c ''subscribe'' (API_SECRET e)
                          (''https://'' @ APP_DOMAIN e @ ''/callback'')) of
          Rejected \<Rightarrow> []
        | Response status \<Rightarrow>
            if response_ok status then []
            else [discord_request (DISCORD_WEBHOOK_URL e)
                    (''Failed to renew subscription for '' @ c)])"

section \<open>Subscription registry of \<^verbatim>\<open>utils.ts\<close>\<close>

text \<open>
  The schema library (valibot, with the treatment of keys it has since version 1), as far
  as the code uses it: \<^verbatim>\<open>safeParse\<close> gives issues or an output; \<^verbatim>\<open>string()\<close>,
  \<^verbatim>\<open>number()\<close> and \<^verbatim>\<open>date()\<close> accept a value of that type (\<^verbatim>\<open>number()\<close> every number
  but \<^verbatim>\<open>NaN\<close>, so an infinity too);
  \<^verbatim>\<open>object({...})\<close> accepts a non-null value of type object, requires every key that is not
  optional to be present, and keeps the declared keys only; \<^verbatim>\<open>array(s)\<close> accepts an array
  whose elements all pass \<open>s\<close>.
\<close>

datatype 'a safeParse = Issues | Output 'a

definition v_string :: "jsval \<Rightarrow> string safeParse" where
  "v_string v = (case v of JStr s \<Rightarrow> Output s | _ \<Rightarrow> Issues)"

definition v_number :: "jsval \<Rightarrow> number safeParse" where
  "v_number v = (case v of JNum n \<Rightarrow> Output n | _ \<Rightarrow> Issues)"

definition v_date :: "jsval \<Rightarrow> int safeParse" where
  "v_date v = (case v of JDate t \<Rightarrow> Output t | _ \<Rightarrow> Issues)"

definition object_entries :: "jsval \<Rightarrow> (string \<times> jsval) list option" where
  "object_entries v =
     (case v of JObj kvs \<Rightarrow> Some kvs | JArr xs \<Rightarrow> Some [] | JDate t \<Rightarrow> Some [] | _ \<Rightarrow> None)"

definition required :: "(string \<times> jsval) list \<Rightarrow> string \<Rightarrow> (jsval \<Rightarrow> 'a safeParse) \<Rightarrow> 'a safeParse" where
  "required kvs key schema = (case map_of kvs key of None \<Rightarrow> Issues | Some v \<Rightarrow> schema v)"

definition v_optional ::
  "(string \<times> jsval) list \<Rightarrow> string \<Rightarrow> (jsval \<Rightarrow> 'a safeParse) \<Rightarrow> 'a option safeParse" where
  "v_optional kvs key schema =
     (case map_of kvs key of
        None \<Rightarrow> Output None
      | Some v \<Rightarrow>
          if v = JUndefined then Output None
          else (case schema v of Issues \<Rightarrow> Issues | Output x \<Rightarrow> Output (Some x)))"

fun v_array :: "(jsval \<Rightarrow> 'a safeParse) \<Rightarrow> jsval list \<Rightarrow> 'a list safeParse" where
  "v_array schema [] = Output []"
| "v_array schema (x # xs) =
     (case schema x of
        Issues \<Rightarrow> Issues
      | Output y \<Rightarrow> (case v_array schema xs of Issues \<Rightarrow> Issues | Output ys \<Rightarrow> Output (y # ys)))"

definition SUBSCRIPTION_KV_KEY :: string where
  "SUBSCRIPTION_KV_KEY = ''auto-yt-notify-subscriptions''"

record subscription =
  channelId :: string
  lastSubscribedAt :: number

definition v_subscription :: "jsval \<Rightarrow> subscription safeParse" where
  "v_subscription v =
     (case object_entries v of
        None \<Rightarrow> Issues
      | Some kvs \<Rightarrow>
          (case (required kvs ''channelId'' v_string, required kvs ''lastSubscribedAt'' v_number) of
             (Output c, Output t) \<Rightarrow> Output \<lparr>channelId = c, lastSubscribedAt = t\<rparr>
           | _ \<Rightarrow> Issues))"

definition v_subscriptions :: "jsval \<Rightarrow> subscription list safeParse" where
  "v_subscriptions v = (case v of JArr xs \<Rightarrow> v_array v_subscription xs | _ \<Rightarrow> Issues)"

text \<open>
  A validated subscription as the object it is, which is what the code pushes to its lists
  and hands to \<^verbatim>\<open>JSON.stringify\<close>.
\<close>

definition subscription_json :: "subscription \<Rightarrow> jsval" where
  "subscription_json s =
     JObj [(''channelId'', JStr (channelId s)), (''lastSubscribedAt'', JNum (lastSubscribedAt s))]"

definition utils_getAllSubscriptions :: "subscription list io" where
  "utils_getAllSubscriptions =
     bind (KV_get SUBSCRIPTION_KV_KEY) (\<lambda>subscriptions.
     case subscriptions of
       None \<Rightarrow> return []
     | Some text \<Rightarrow>
         if text = Raw [] then return []
         else
           bind (lift (JSON_parse text)) (\<lambda>parsed.
           case v_subscriptions parsed of
             Issues \<Rightarrow> bind (KV_delete SUBSCRIPTION_KV_KEY) (\<lambda>_. return [])
           | Output out \<Rightarrow> return out))"

definition utils_addSubscription :: "'k platform \<Rightarrow> env \<Rightarrow> string \<Rightarrow> unit io" where
  "utils_addSubscription P e c =
     bind utils_getAllSubscriptions (\<lambda>allSubscriptions.
     if find (\<lambda>s. channelId s = c) allSubscriptions \<noteq> None then return ()
     else
       bind (requestSubscription P c ''subscribe'' (API_SECRET e)
               (''https://'' @ APP_DOMAIN e @ ''/callback'')) (\<lambda>subscribed.
       if \<not> subscribed then throw (Error ''Failed to subscribe!'')
       else
         bind (now P) (\<lambda>t.
         KV_put SUBSCRIPTION_KV_KEY
           (JSON_stringify P
              (JArr (map subscription_json
                       (allSubscriptions @ [\<lparr>channelId = c, lastSubscribedAt = Finite t\<rparr>])))))))"

definition utils_removeSubscription :: "'k platform \<Rightarrow> env \<Rightarrow> string \<Rightarrow> unit io" where
  "utils_removeSubscription P e c =
     bind utils_getAllSubscriptions (\<lambda>allSubscriptions.
     if find (\<lambda>s. channelId s = c) allSubscriptions = None then return ()
     else
       bind (requestSubscription P c ''unsubscribe'' (API_SECRET e)
               (APP_DOMAIN e @ ''/callback'')) (\<lambda>unsubscribed.
       if \<not> unsubscribed then throw (Error ''Failed to unsubscribe!'')
       else
         KV_put SUBSCRIPTION_KV_KEY
           (JSON_stringify P
              (JArr (map subscription_json
                       (filter (\<lambda>s. channelId s \<noteq> c) allSubscriptions))))))"

text \<open>\<^verbatim>\<open>renewSubscriptionCronWorker\<close>; its loop pushes each subscription as it was read.\<close>

fun utils_renew_loop ::
  "'k platform \<Rightarrow> env \<Rightarrow> subscription list \<Rightarrow> subscription list \<Rightarrow> subscription list io" where
  "utils_renew_loop P e [] renewedSubscriptions = return renewedSubscriptions"
| "utils_renew_loop P e (s # rest) renewedSubscriptions =
     bind (requestSubscription P (channelId s) ''subscribe'' (API_SECRET e)
             (''https://'' @ APP_DOMAIN e @ ''/callback'')) (\<lambda>subscribed.
     bind (if \<not> subscribed
           then discordLog_dropped (DISCORD_WEBHOOK_URL e)
                  (''Failed to renew subscription for '' @ channelId s)
           else return ()) (\<lambda>_.
     utils_renew_loop P e rest (renewedSubscriptions @ [s])))"

definition renewSubscriptionCronWorker :: "'k platform \<Rightarrow> env \<Rightarrow> unit io" where
  "renewSubscriptionCronWorker P e =
     bind utils_getAllSubscriptions (\<lambda>allSubscriptions.
     bind (utils_renew_loop P e allSubscriptions []) (\<lambda>renewedSubscriptions.
     KV_put SUBSCRIPTION_KV_KEY
       (JSON_stringify P (JArr (map subscription_json renewedSubscriptions)))))"

section \<open>Notification pipeline of \<^verbatim>\<open>lib.ts\<close>\<close>

text \<open>
  \<^verbatim>\<open>callbackSchema\<close>. The object schema of an entry gives the validated entry; the union over
  the feed tries the deletion marker first and the entry second; the transform maps the
  result to \<^verbatim>\<open>null\<close> (\<open>None\<close>) or to the notification record.
\<close>

record entry =
  yt_videoId :: string
  entry_title :: string
  yt_channelId :: string
  author_name :: string
  author_uri :: string
  entry_published :: int
  entry_updated :: int

definition v_author :: "jsval \<Rightarrow> (string \<times> string) safeParse" where
  "v_author v =
     (case object_entries v of
        None \<Rightarrow> Issues
      | Some kvs \<Rightarrow>
          (case (required kvs ''name'' v_string, required kvs ''uri'' v_string) of
             (Output n, Output u) \<Rightarrow> Output (n, u)
           | _ \<Rightarrow> Issues))"

definition v_entry :: "jsval \<Rightarrow> entry safeParse" where
  "v_entry v =
     (case object_entries v of
        None \<Rightarrow> Issues
      | Some kvs \<Rightarrow>
          (case (required kvs ''yt:videoId'' v_string, required kvs ''title'' v_string,
                 required kvs ''yt:channelId'' v_string, required kvs ''author'' v_author,
                 required kvs ''published'' v_date, required kvs ''updated'' v_date) of
             (Output i, Output t, Output c, Output (n, u), Output p, Output q) \<Rightarrow>
               Output \<lparr>yt_videoId = i, entry_title = t, yt_channelId = c, author_name = n,
                       author_uri = u, entry_published = p, entry_updated = q\<rparr>
           | _ \<Rightarrow> Issues))"

datatype feed = Deleted_entry jsval | Feed_entry "entry option"

definition v_feed :: "jsval \<Rightarrow> feed safeParse" where
  "v_feed v =
     (case object_entries v of
        None \<Rightarrow> Issues
      | Some kvs \<Rightarrow>
          (case map_of kvs ''at:deleted-entry'' of
             Some d \<Rightarrow> Output (Deleted_entry d)
           | None \<Rightarrow>
               (case v_optional kvs ''entry'' v_entry of
                  Issues \<Rightarrow> Issues
                | Output en \<Rightarrow> Output (Feed_entry en))))"

definition transform :: "feed \<Rightarrow> (string, int) VideoData option" where
  "transform f =
     (case f of
        Deleted_entry d \<Rightarrow> None
      | Feed_entry None \<Rightarrow> None
      | Feed_entry (Some video) \<Rightarrow>
          Some \<lparr>video_id = yt_videoId video, video_title = entry_title video,
                video_link = ''https://www.youtube.com/watch?v='' @ yt_videoId video,
                channel_id = yt_channelId video, channel_name = author_name video,
                channel_link = author_uri video,
                published = entry_published video, updated = entry_updated video\<rparr>)"

definition callbackSchema :: "jsval \<Rightarrow> (string, int) VideoData option safeParse" where
  "callbackSchema data =
     (case object_entries data of
        None \<Rightarrow> Issues
      | Some kvs \<Rightarrow>
          (case required kvs ''feed'' v_feed of
             Issues \<Rightarrow> Issues
           | Output f \<Rightarrow> Output (transform f)))"

text \<open>
  \<^verbatim>\<open>YoutubeNotifier.callback(xml, signature?)\<close>; an absent header is \<open>None\<close>. The parser is
  called with no validation option.
\<close>

definition lib_callback :: "'k platform \<Rightarrow> env \<Rightarrow> string \<Rightarrow> string option \<Rightarrow> unit io" where
  "lib_callback P e xml signature =
     (case signature of
        None \<Rightarrow> throw (Error ''Invalid signature'')
      | Some sig \<Rightarrow>
          if sig = [] then throw (Error ''Invalid signature'')
          else
            bind (lift (lib_verifyNotificationSignature P (API_SECRET e) sig xml)) (\<lambda>verified.
            if \<not> verified then throw (Error ''Invalid signature'')
            else
              bind (lift (XMLParser_parse P False xml)) (\<lambda>data.
              case callbackSchema data of
                Issues \<Rightarrow> return ()
              | Output None \<Rightarrow> return ()
              | Output (Some video) \<Rightarrow>
                  lib_sendDiscordNotification P (DISCORD_WEBHOOK_URL e) video)))"

section \<open>Notification pipeline of \<^verbatim>\<open>part_001\<close>\<close>

text \<open>
  The handler of \<^verbatim>\<open>POST /callback\<close>. \<^verbatim>\<open>verifyNotificationSignature\<close> is an async function and
  the handler does not await it: what \<^verbatim>\<open>!\<close> negates is the promise, an object, which is
  truthy whatever it settles to.
\<close>

datatype 'a promise = Promise 'a

fun promise_truthy :: "'a promise \<Rightarrow> bool" where
  "promise_truthy (Promise settles_to) = True"

datatype response = text_response string | json_response jsval

text \<open>
  \<^verbatim>\<open>video.link["@_href"]\<close>: on a string, \<^verbatim>\<open>link\<close> is the inherited method, and its
  \<^verbatim>\<open>@_href\<close> is undefined.
\<close>

definition link_href :: "jsval \<Rightarrow> js_error + jsval" where
  "link_href video =
     (case video of
        JStr s \<Rightarrow> Inr JUndefined
      | _ \<Rightarrow> (case js_get video ''link'' of Inl e \<Rightarrow> Inl e | Inr l \<Rightarrow> js_get l ''@_href''))"

definition part001_post_callback ::
  "'k platform \<Rightarrow> env \<Rightarrow> string \<Rightarrow> string option \<Rightarrow> response io" where
  "part001_post_callback P e xml signature =
     (if (case signature of
            None \<Rightarrow> True
          | Some sig \<Rightarrow>
              sig = [] \<or>
              \<not> promise_truthy
                  (Promise (utils_verifyNotificationSignature P (API_SECRET e) sig xml)))
      then return (json_response (JObj [(''message'', JStr ''Invalid Signature'')]))
      else
        bind (lift (XMLParser_parse P True xml)) (\<lambda>data.
        bind (lift (js_get data ''feed'')) (\<lambda>feed.
        bind (lift (js_get feed ''at:deleted-entry'')) (\<lambda>deleted.
        if truthy deleted then return (text_response ''OK'')
        else
          bind (lift (js_get feed ''entry'')) (\<lambda>video.
          if \<not> truthy video then return (text_response ''OK'')
          else
            bind (lift (js_get video ''yt:videoId'')) (\<lambda>videoId.
            bind (lift (js_get video ''published'')) (\<lambda>published_text.
            bind (lift (js_get video ''updated'')) (\<lambda>updated_text.
            bind (lift (js_get video ''title'')) (\<lambda>title.
            bind (lift (link_href video)) (\<lambda>href.
            bind (lift (js_get video ''yt:channelId'')) (\<lambda>channel.
            bind (lift (js_get video ''author'')) (\<lambda>author.
            bind (lift (js_get author ''name'')) (\<lambda>name.
            bind (lift (js_get author ''uri'')) (\<lambda>uri.
            bind (utils_sendDiscordNotification P e
                    \<lparr>video_id = videoId, video_title = title, video_link = href,
                     channel_id = channel, channel_name = name, channel_link = uri,
                     published = new_Date P published_text,
                     updated = new_Date P updated_text\<rparr>) (\<lambda>_.
            return (text_response ''OK''))))))))))))))))"

section \<open>A platform for the closed examples\<close>

text \<open>
  A test double of the platform, used only to run the definitions on concrete inputs: the
  hash names WebCrypto registers, a stand-in MAC (two fixed bytes, then the lengths of key
  and message), a parser that returns a given tree, stand-ins for the date functions and
  for \<^verbatim>\<open>dedent\<close>, a clock that starts at a fixed instant, and a given network.
\<close>

definition test_platform ::
  "jsval \<Rightarrow> (nat \<Rightarrow> request \<Rightarrow> fetch_result) \<Rightarrow> string platform" where
  "test_platform parsed net =
     \<lparr>subtle_importKey = (\<lambda>name key.
        if name \<notin> set [''SHA-1'', ''SHA-256'', ''SHA-384'', ''SHA-512'']
        then Inl NotSupportedError
        else if key = [] then Inl DataError else Inr (name @ key)),
      subtle_sign = (\<lambda>key message. [0x0a, 0xbc, of_nat (length key), of_nat (length message)]),
      XMLParser_parse = (\<lambda>validate xml. Inr parsed),
      Date_parse = (\<lambda>s. if s = ''2024-01-01T00:00:00+00:00'' then Some 1704067200000
                         else if s = ''2024-01-02T00:00:00+00:00'' then Some 1704153600000
                         else None),
      Date_toISOString = (\<lambda>t. ''ISO:'' @ Number_toString t),
      Date_toString = (\<lambda>t. ''Date:'' @ Number_toString t),
      dedent = (\<lambda>s. s),
      Date_now = (\<lambda>tick. 1700000000000 + int tick),
      fetch = net\<rparr>"

definition test_env :: env where
  "test_env = \<lparr>API_SECRET = ''secret'', APP_DOMAIN = ''example.com'',
               DISCORD_WEBHOOK_URL = ''https://discord.test/hook''\<rparr>"

definition empty_world :: world where
  "empty_world = \<lparr>KV = (\<lambda>key. None), ticks = 0, sent = []\<rparr>"

text \<open>
  A feed as the parser returns it for one video (texts for the dates, the attributes of the
  link node dropped), the same feed with one property of the entry left out, and an entry
  whose dates are \<^verbatim>\<open>Date\<close> objects.
\<close>

definition sample_props :: "(string \<times> jsval) list" where
  "sample_props =
     [(''id'', JStr ''yt:video:v123''), (''yt:videoId'', JStr ''v123''),
      (''yt:channelId'', JStr ''c1''), (''title'', JStr ''T''), (''link'', JStr []),
      (''author'', JObj [(''name'', JStr ''A''), (''uri'', JStr ''http://a'')]),
      (''published'', JStr ''2024-01-01T00:00:00+00:00''),
      (''updated'', JStr ''2024-01-02T00:00:00+00:00'')]"

definition sample_feed :: jsval where
  "sample_feed = JObj [(''feed'', JObj [(''entry'', JObj sample_props)])]"

definition sample_feed_without :: "string \<Rightarrow> jsval" where
  "sample_feed_without key =
     JObj [(''feed'', JObj [(''entry'', JObj (filter (\<lambda>kv. fst kv \<noteq> key) sample_props))])]"

definition dated_entry :: "(string \<times> jsval) list" where
  "dated_entry =
     [(''yt:videoId'', JStr ''v123''), (''yt:channelId'', JStr ''c1''), (''title'', JStr ''T''),
      (''author'', JObj [(''name'', JStr ''A''), (''uri'', JStr ''http://a'')]),
      (''published'', JDate 1704067200000), (''updated'', JDate 1704153600000)]"

section \<open>Evaluation rules\<close>

lemmas io_defs = bind_def return_def throw_def lift_def KV_get_def KV_put_def KV_delete_def
  JSON_parse_def JSON_stringify_def now_def await_fetch_def dropped_fetch_def or_default_def

lemmas hub_defs = requestSubscription_def hub_request_def HUB_URL_def BASE_TOPIC_URL_def
  response_ok_def discordLog_def discordLog_dropped_def discord_request_def

lemmas schema_defs = v_string_def v_number_def v_date_def object_entries_def required_def
  v_optional_def v_subscription_def v_subscriptions_def subscription_json_def
  v_author_def v_entry_def v_feed_def transform_def callbackSchema_def

lemmas string_defs = toLowerCase_def toLowerCase_char_def toUpperCase_def toUpperCase_char_def
  signatureHex_def padStart_def toString16.simps toString10.simps digitChar_def
  Number_toString_def nl_def floor_seconds_def

lemmas test_defs = test_platform_def test_env_def empty_world_def SUBSCRIPTION_KV_KEY_def
  sample_props_def sample_feed_def sample_feed_without_def dated_entry_def

lemma bind_return [simp]: "bind (return x) f = f x"
  by (rule ext) (simp add: bind_def return_def)

lemma bind_throw [simp]: "bind (throw e) f = throw e"
  by (rule ext) (simp add: bind_def throw_def)

lemma lift_Inr [simp]: "lift (Inr x) = return x"
  by (simp add: lift_def)

lemma lift_Inl [simp]: "lift (Inl e) = throw e"
  by (simp add: lift_def)

lemma bind_apply: "m w = (Inr x, w') \<Longrightarrow> bind m f w = f x w'"
  by (simp add: bind_def)

text \<open>What the two reads and the hub call do to the world.\<close>

lemma lib_getAllSubscriptions_eq:
  "lib_getAllSubscriptions w
     = (JSON_parse (or_default (KV w ''subscriptions'') (Doc (JArr []))),
        w\<lparr>ticks := Suc (ticks w)\<rparr>)"
  by (simp add: lib_getAllSubscriptions_def bind_def KV_get_def lift_def return_def throw_def
      split: sum.splits)

lemma requestSubscription_eq:
  "requestSubscription P c m s u w
     = ((case fetch P (ticks w) (hub_request c m s u) of
           Rejected \<Rightarrow> Inl NetworkError | Response status \<Rightarrow> Inr (response_ok status)),
        w\<lparr>ticks := Suc (ticks w), sent := sent w @ [hub_request c m s u]\<rparr>)"
  by (simp add: requestSubscription_def bind_def await_fetch_def return_def Let_def
      split: fetch_result.splits)

section \<open>Signature verification: proofs\<close>

lemma toLowerCase_char_eq_iff: "toLowerCase_char c = CHR ''='' \<longleftrightarrow> c = CHR ''=''"
  by (auto simp: toLowerCase_char_def split: if_splits)

lemma toLowerCase_char_eq_iff2: "CHR ''='' = toLowerCase_char c \<longleftrightarrow> c = CHR ''=''"
  by (auto simp: toLowerCase_char_def split: if_splits)

lemma set_toLowerCase_eq: "CHR ''='' \<in> set (toLowerCase s) \<longleftrightarrow> CHR ''='' \<in> set s"
  by (induction s) (auto simp: toLowerCase_def toLowerCase_char_eq_iff toLowerCase_char_eq_iff2)

lemma digitChar_in: "digitChar n \<in> set ''0123456789abcdef''"
  unfolding digitChar_def by (rule nth_mem) simp

lemma digitChar_neq: "CHR ''='' \<noteq> digitChar n"
  using digitChar_in[of n] by auto

lemma toString16_no_eq: "CHR ''='' \<notin> set (toString16 n)"
proof (induction n rule: toString16.induct)
  case (1 n)
  then show ?case
    by (subst toString16.simps) (simp add: digitChar_neq)
qed

lemma signatureHex_no_eq: "CHR ''='' \<notin> set (signatureHex bs)"
  by (auto simp: signatureHex_def padStart_def toString16_no_eq)

lemma String_split_takeWhile:
  "\<exists>ps. String_split sep s = takeWhile (\<lambda>c. c \<noteq> sep) s # ps"
  by (induction s) (auto split: list.splits)

lemma String_split_prefix:
  "sep \<notin> set a \<Longrightarrow> String_split sep (a @ sep # b) = a # String_split sep b"
  by (induction a) (auto split: list.splits)

lemma String_split_none: "sep \<notin> set s \<Longrightarrow> String_split sep s = [s]"
  by (induction s) (auto split: list.splits)

lemma sha256_name: "String_replace ''SHA'' ''SHA-'' (toUpperCase ''sha256'') = ''SHA-256''"
  by (simp add: toUpperCase_def toUpperCase_char_def)

lemma split_header:
  "CHR ''='' \<notin> set D \<Longrightarrow> String_split CHR ''='' (''sha256='' @ D) = [''sha256'', D]"
  using String_split_prefix[of "CHR ''=''" "''sha256''" D] by (simp add: String_split_none)

lemma split_header_first:
  "\<exists>ps. String_split CHR ''='' (''sha256='' @ D)
        = ''sha256'' # takeWhile (\<lambda>c. c \<noteq> CHR ''='') D # ps"
  using String_split_prefix[of "CHR ''=''" "''sha256''" D]
    String_split_takeWhile[of "CHR ''=''" D]
  by auto

lemma lib_verify_true:
  assumes "subtle_importKey P ''SHA-256'' S = Inr k"
    and "toLowerCase D = toLowerCase (signatureHex (subtle_sign P k B))"
  shows "lib_verifyNotificationSignature P S (''sha256='' @ D) B = Inr True"
proof -
  have "CHR ''='' \<notin> set D"
    using assms(2) signatureHex_no_eq set_toLowerCase_eq by metis
  then have sp: "String_split CHR ''='' (''sha256='' @ D) = [''sha256'', D]"
    by (rule split_header)
  show ?thesis
    unfolding lib_verifyNotificationSignature_def sp list.case sha256_name
    using assms by simp
qed

lemma lib_verify_false:
  assumes k: "subtle_importKey P ''SHA-256'' S = Inr k"
    and i: "i < length (signatureHex (subtle_sign P k B))"
    and c: "toLowerCase_char c \<noteq> toLowerCase_char (signatureHex (subtle_sign P k B) ! i)"
  shows "lib_verifyNotificationSignature P S
           (''sha256='' @ (signatureHex (subtle_sign P k B))[i := c]) B = Inr False"
proof -
  define D where "D = signatureHex (subtle_sign P k B)"
  define D' where "D' = D[i := c]"
  define m where "m = takeWhile (\<lambda>c. c \<noteq> CHR ''='') D'"
  obtain ps where sp: "String_split CHR ''='' (''sha256='' @ D') = ''sha256'' # m # ps"
    using split_header_first[of D'] by (auto simp: m_def)
  have "toLowerCase D \<noteq> toLowerCase m"
  proof
    assume eq: "toLowerCase D = toLowerCase m"
    then have "length D = length m"
      by (metis length_map toLowerCase_def)
    then have "length m = length D'"
      by (simp add: D'_def)
    then have "m = D'"
      unfolding m_def by (metis takeWhile_eq_take take_all order_refl)
    with eq have "map toLowerCase_char D ! i = map toLowerCase_char D' ! i"
      by (simp add: toLowerCase_def)
    with i c show False
      by (simp add: D_def D'_def)
  qed
  then show ?thesis
    unfolding D'_def[symmetric] D_def[symmetric] lib_verifyNotificationSignature_def
      sp list.case sha256_name
    using k by (simp add: D_def)
qed

lemma lib_verify_unsupported:
  assumes "subtle_importKey P
             (String_replace ''SHA'' ''SHA-''
                (toUpperCase (takeWhile (\<lambda>c. c \<noteq> CHR ''='') header))) S = Inl e"
  shows "lib_verifyNotificationSignature P S header B = Inl e"
proof -
  obtain ps where
    "String_split CHR ''='' header = takeWhile (\<lambda>c. c \<noteq> CHR ''='') header # ps"
    using String_split_takeWhile by blast
  then show ?thesis
    using assms by (simp add: lib_verifyNotificationSignature_def)
qed

text \<open>
  C2, as the code has it. With \<open>k\<close> the HMAC key the platform imports for the hash
  \<^verbatim>\<open>SHA-256\<close> and the secret \<open>S\<close>, and the digest of a body \<open>B\<close> the hex rendering of
  \<open>subtle_sign P k B\<close>: \<^verbatim>\<open>verify(S, "sha256=" + D, B)\<close> is true for every \<open>D\<close> that equals the
  digest up to letter case; replacing any one character of the digest by a character that
  differs from it, letter case aside, makes it false; and for a header whose algorithm
  name the platform does not import, verification does not return false: it throws the
  platform's error.
\<close>

theorem lib_verifyNotificationSignature_amended:
  assumes "subtle_importKey P ''SHA-256'' S = Inr k"
  shows "(toLowerCase D = toLowerCase (signatureHex (subtle_sign P k B))
            \<longrightarrow> lib_verifyNotificationSignature P S (''sha256='' @ D) B = Inr True)
       \<and> (i < length (signatureHex (subtle_sign P k B))
            \<and> toLowerCase_char c \<noteq> toLowerCase_char (signatureHex (subtle_sign P k B) ! i)
            \<longrightarrow> lib_verifyNotificationSignature P S
                  (''sha256='' @ (signatureHex (subtle_sign P k B))[i := c]) B = Inr False)
       \<and> (subtle_importKey P
             (String_replace ''SHA'' ''SHA-''
                (toUpperCase (takeWhile (\<lambda>c. c \<noteq> CHR ''='') header))) S = Inl e
            \<longrightarrow> lib_verifyNotificationSignature P S header B = Inl e)"
proof (intro conjI impI)
  assume "toLowerCase D = toLowerCase (signatureHex (subtle_sign P k B))"
  with assms show "lib_verifyNotificationSignature P S (''sha256='' @ D) B = Inr True"
    by (rule lib_verify_true)
next
  assume "i < length (signatureHex (subtle_sign P k B))
          \<and> toLowerCase_char c \<noteq> toLowerCase_char (signatureHex (subtle_sign P k B) ! i)"
  then have "i < length (signatureHex (subtle_sign P k B))"
    and "toLowerCase_char c \<noteq> toLowerCase_char (signatureHex (subtle_sign P k B) ! i)"
    by simp_all
  with assms show "lib_verifyNotificationSignature P S
      (''sha256='' @ (signatureHex (subtle_sign P k B))[i := c]) B = Inr False"
    by (rule lib_verify_false)
next
  assume "subtle_importKey P
     (String_replace ''SHA'' ''SHA-''
        (toUpperCase (takeWhile (\<lambda>c. c \<noteq> CHR ''='') header))) S = Inl e"
  then show "lib_verifyNotificationSignature P S header B = Inl e"
    by (rule lib_verify_unsupported)
qed

text \<open>
  The theorem at the test platform, secret \<^verbatim>\<open>secret\<close>, body \<^verbatim>\<open>xml\<close>: the digest is
  \<^verbatim>\<open>0abc0d03\<close>; it verifies in upper case, fails with its first character changed, and the
  header \<^verbatim>\<open>md5=00\<close> throws.
\<close>

theorem lib_verifyNotificationSignature_amended_witness:
  "subtle_importKey (test_platform JNull (\<lambda>t r. Rejected)) ''SHA-256'' ''secret''
     = Inr ''SHA-256secret''
   \<and> lib_verifyNotificationSignature (test_platform JNull (\<lambda>t r. Rejected))
       ''secret'' ''sha256=0ABC0D03'' ''xml'' = Inr True
   \<and> lib_verifyNotificationSignature (test_platform JNull (\<lambda>t r. Rejected))
       ''secret'' ''sha256=1abc0d03'' ''xml'' = Inr False
   \<and> lib_verifyNotificationSignature (test_platform JNull (\<lambda>t r. Rejected))
       ''secret'' ''md5=00'' ''xml'' = Inl NotSupportedError"
  using lib_verifyNotificationSignature_amended
    [of "test_platform JNull (\<lambda>t r. Rejected)" "''secret''" "''SHA-256secret''"
        "''0ABC0D03''" "''xml''" 0 "CHR ''1''" "''md5=00''" NotSupportedError]
  by (simp add: test_platform_def signatureHex_def padStart_def toString16.simps digitChar_def
      toLowerCase_def toLowerCase_char_def toUpperCase_def toUpperCase_char_def)

text \<open>
  C2 as stated fails in its last part: the header \<^verbatim>\<open>md5=00\<close> names an algorithm the platform
  does not import, and verification throws instead of returning false.
\<close>

theorem lib_verifyNotificationSignature_unsupported_counterexample:
  "subtle_importKey (test_platform JNull (\<lambda>t r. Rejected)) ''MD5'' ''secret''
     = Inl NotSupportedError
   \<and> lib_verifyNotificationSignature (test_platform JNull (\<lambda>t r. Rejected))
       ''secret'' ''md5=00'' ''xml'' = Inl NotSupportedError
   \<and> lib_verifyNotificationSignature (test_platform JNull (\<lambda>t r. Rejected))
       ''secret'' ''md5=00'' ''xml'' \<noteq> Inr False"
  by (simp add: lib_verifyNotificationSignature_def test_platform_def
      toUpperCase_def toUpperCase_char_def)

section \<open>Hub client: proofs\<close>

text \<open>
  C7, as the code has it. \<^verbatim>\<open>requestSubscription\<close> sends exactly one request, a POST to the hub
  endpoint, and touches no storage; it returns true exactly when the hub answers with a
  success status and false exactly when it answers with another status; when the call
  itself fails (\<^verbatim>\<open>fetch\<close> rejects) it returns nothing: the error propagates to the caller.
\<close>

theorem requestSubscription_outcomes:
  "(fst (requestSubscription P c mode secret url w) = Inr True
      \<longleftrightarrow> (\<exists>status. fetch P (ticks w) (hub_request c mode secret url) = Response status
                    \<and> response_ok status))
   \<and> (fst (requestSubscription P c mode secret url w) = Inr False
      \<longleftrightarrow> (\<exists>status. fetch P (ticks w) (hub_request c mode secret url) = Response status
                    \<and> \<not> response_ok status))
   \<and> (fst (requestSubscription P c mode secret url w) = Inl NetworkError
      \<longleftrightarrow> fetch P (ticks w) (hub_request c mode secret url) = Rejected)
   \<and> sent (snd (requestSubscription P c mode secret url w))
       = sent w @ [hub_request c mode secret url]
   \<and> KV (snd (requestSubscription P c mode secret url w)) = KV w
   \<and> req_url (hub_request c mode secret url) = HUB_URL
   \<and> req_method (hub_request c mode secret url) = ''POST''"
  by (cases "fetch P (ticks w) (hub_request c mode secret url)")
     (simp_all add: requestSubscription_def io_defs Let_def, simp_all add: hub_request_def)

text \<open>
  C7 as stated fails where the call itself fails: on a network that rejects, the result is
  the thrown error, not the value false.
\<close>

theorem requestSubscription_network_failure_counterexample:
  "fst (requestSubscription (test_platform JNull (\<lambda>t r. Rejected)) ''UC1'' ''subscribe''
          ''secret'' ''https://example.com/callback'' empty_world) = Inl NetworkError
   \<and> fst (requestSubscription (test_platform JNull (\<lambda>t r. Rejected)) ''UC1'' ''subscribe''
          ''secret'' ''https://example.com/callback'' empty_world) \<noteq> Inr False"
  by (simp add: requestSubscription_def io_defs test_defs)

section \<open>Subscription registry: what the operations compute\<close>

text \<open>The registry of \<^verbatim>\<open>lib.ts\<close>, for a stored list of subscriptions.\<close>

lemma find_absent:
  "c \<notin> fst ` set subs
   \<Longrightarrow> Array_find_channelId c (map Subscription_json subs) = Inr JUndefined"
  by (induction subs) (auto simp: Subscription_json_def)

lemma find_present:
  "c \<in> fst ` set subs
   \<Longrightarrow> \<exists>stamp. Array_find_channelId c (map Subscription_json subs)
                = Inr (Subscription_json (c, stamp))"
  by (induction subs) (auto simp: Subscription_json_def)

lemma filter_subs:
  "Array_filter_channelId c (map Subscription_json subs)
     = Inr (map Subscription_json (filter (\<lambda>s. fst s \<noteq> c) subs))"
  by (induction subs) (auto simp: Subscription_json_def)

lemma toJSON_Subscriptions:
  "(\<lambda>x. if x = JUndefined then JNull else x) \<circ> (toJSON P \<circ> Subscription_json)
     = Subscription_json"
  by (rule ext) (simp add: Subscription_json_def)

lemma toJSON_Subscriptions2:
  "(\<lambda>x. if x = JUndefined then JNull else x) \<circ> toJSON P \<circ> Subscription_json
     = Subscription_json"
  by (rule ext) (simp add: Subscription_json_def)

lemma stored_parse:
  assumes "fst (lib_getAllSubscriptions w) = Inr v"
  shows "JSON_parse (or_default (KV w ''subscriptions'') (Doc (JArr []))) = Inr v"
  using assms by (simp add: lib_getAllSubscriptions_eq)

lemma lib_getAll_after_put:
  "KV w ''subscriptions'' = Some (Doc v) \<Longrightarrow> fst (lib_getAllSubscriptions w) = Inr v"
  by (simp add: lib_getAllSubscriptions_eq or_default_def JSON_parse_def)

lemma lib_add_present:
  assumes "fst (lib_getAllSubscriptions w) = Inr (JArr (map Subscription_json subs))"
    and "c \<in> fst ` set subs"
  shows "lib_addSubscription P e c w = (Inr (), w\<lparr>ticks := Suc (ticks w)\<rparr>)"
proof -
  obtain stamp where f:
    "Array_find_channelId c (map Subscription_json subs) = Inr (Subscription_json (c, stamp))"
    using find_present[OF assms(2)] by blast
  have g: "lib_getAllSubscriptions w
           = (Inr (JArr (map Subscription_json subs)), w\<lparr>ticks := Suc (ticks w)\<rparr>)"
    using stored_parse[OF assms(1)] by (simp add: lib_getAllSubscriptions_eq)
  show ?thesis
    unfolding lib_addSubscription_def
    by (simp add: bind_apply[of lib_getAllSubscriptions w, OF g] as_Array_def f)
       (simp add: Subscription_json_def return_def)
qed

lemma lib_add_new:
  assumes "fst (lib_getAllSubscriptions w) = Inr (JArr (map Subscription_json subs))"
    and "c \<notin> fst ` set subs"
  shows "lib_addSubscription P e c w =
     (case fetch P (Suc (ticks w))
             (hub_request c ''subscribe'' (API_SECRET e)
                (''https://'' @ APP_DOMAIN e @ ''/callback'')) of
        Rejected \<Rightarrow>
          (Inl NetworkError,
           w\<lparr>ticks := Suc (Suc (ticks w)),
             sent := sent w @ [hub_request c ''subscribe'' (API_SECRET e)
                                 (''https://'' @ APP_DOMAIN e @ ''/callback'')]\<rparr>)
      | Response status \<Rightarrow>
          if response_ok status
          then (Inr (),
                w\<lparr>ticks := Suc (Suc (Suc (ticks w))),
                  sent := sent w @ [hub_request c ''subscribe'' (API_SECRET e)
                                      (''https://'' @ APP_DOMAIN e @ ''/callback'')],
                  KV := (KV w)(''subscriptions'' \<mapsto>
                          Doc (JArr (map Subscription_json
                                 (subs @ [(c, Date_toISOString P
                                                (Date_now P (Suc (Suc (ticks w)))))]))))\<rparr>)
          else (Inl (Error ''Failed to subscribe''),
                w\<lparr>ticks := Suc (Suc (ticks w)),
                  sent := sent w @ [hub_request c ''subscribe'' (API_SECRET e)
                                      (''https://'' @ APP_DOMAIN e @ ''/callback'')]\<rparr>))"
proof -
  have g: "lib_getAllSubscriptions w
           = (Inr (JArr (map Subscription_json subs)), w\<lparr>ticks := Suc (ticks w)\<rparr>)"
    using stored_parse[OF assms(1)] by (simp add: lib_getAllSubscriptions_eq)
  show ?thesis
    unfolding lib_addSubscription_def
    by (simp add: bind_apply[of lib_getAllSubscriptions w, OF g] as_Array_def
          find_absent[OF assms(2)])
       (simp add: bind_def requestSubscription_eq throw_def now_def KV_put_def
          JSON_stringify_def toJSON_Subscriptions
          split: fetch_result.splits, simp add: Subscription_json_def)
qed

lemma lib_remove_absent:
  assumes "fst (lib_getAllSubscriptions w) = Inr (JArr (map Subscription_json subs))"
    and "c \<notin> fst ` set subs"
  shows "lib_removeSubscription P e c w = (Inr (), w\<lparr>ticks := Suc (ticks w)\<rparr>)"
proof -
  have g: "lib_getAllSubscriptions w
           = (Inr (JArr (map Subscription_json subs)), w\<lparr>ticks := Suc (ticks w)\<rparr>)"
    using stored_parse[OF assms(1)] by (simp add: lib_getAllSubscriptions_eq)
  show ?thesis
    unfolding lib_removeSubscription_def
    by (simp add: bind_apply[of lib_getAllSubscriptions w, OF g] as_Array_def
          find_absent[OF assms(2)])
       (simp add: return_def)
qed

lemma lib_remove_present:
  assumes "fst (lib_getAllSubscriptions w) = Inr (JArr (map Subscription_json subs))"
    and "c \<in> fst ` set subs"
  shows "lib_removeSubscription P e c w =
     (case fetch P (Suc (ticks w))
             (hub_request c ''unsubscribe'' (API_SECRET e)
                (''https://'' @ APP_DOMAIN e @ ''/callback'')) of
        Rejected \<Rightarrow>
          (Inl NetworkError,
           w\<lparr>ticks := Suc (Suc (ticks w)),
             sent := sent w @ [hub_request c ''unsubscribe'' (API_SECRET e)
                                 (''https://'' @ APP_DOMAIN e @ ''/callback'')]\<rparr>)
      | Response status \<Rightarrow>
          if response_ok status
          then (Inr (),
                w\<lparr>ticks := Suc (Suc (Suc (ticks w))),
                  sent := sent w @ [hub_request c ''unsubscribe'' (API_SECRET e)
                                      (''https://'' @ APP_DOMAIN e @ ''/callback'')],
                  KV := (KV w)(''subscriptions'' \<mapsto>
                          Doc (JArr (map Subscription_json
                                       (filter (\<lambda>s. fst s \<noteq> c) subs))))\<rparr>)
          else (Inl (Error ''Failed to unsubscribe''),
                w\<lparr>ticks := Suc (Suc (ticks w)),
                  sent := sent w @ [hub_request c ''unsubscribe'' (API_SECRET e)
                                      (''https://'' @ APP_DOMAIN e @ ''/callback'')]\<rparr>))"
proof -
  obtain stamp where f:
    "Array_find_channelId c (map Subscription_json subs) = Inr (Subscription_json (c, stamp))"
    using find_present[OF assms(2)] by blast
  have t: "truthy (Subscription_json (c, stamp))"
    by (simp add: Subscription_json_def)
  have g: "lib_getAllSubscriptions w
           = (Inr (JArr (map Subscription_json subs)), w\<lparr>ticks := Suc (ticks w)\<rparr>)"
    using stored_parse[OF assms(1)] by (simp add: lib_getAllSubscriptions_eq)
  show ?thesis
    unfolding lib_removeSubscription_def
    by (simp add: bind_apply[of lib_getAllSubscriptions w, OF g] as_Array_def f t)
       (simp add: bind_def requestSubscription_eq throw_def KV_put_def JSON_stringify_def
          filter_subs return_def toJSON_Subscriptions2
          split: fetch_result.splits)
qed

text \<open>The registry of \<^verbatim>\<open>utils.ts\<close>: a stored array of subscription objects is read as the
  list of those subscriptions, and a read that returns a channel has touched nothing.\<close>

lemma v_subscription_json [simp]: "v_subscription (subscription_json s) = Output s"
  by (simp add: v_subscription_def subscription_json_def object_entries_def required_def
      v_string_def v_number_def)

lemma v_array_json [simp]: "v_array v_subscription (map subscription_json xs) = Output xs"
  by (induction xs) simp_all

lemma v_subscriptions_json [simp]: "v_subscriptions (JArr (map subscription_json xs)) = Output xs"
  by (simp add: v_subscriptions_def)

lemma utils_getAll_after_put:
  "KV w SUBSCRIPTION_KV_KEY = Some (Doc (JArr (map subscription_json xs)))
   \<Longrightarrow> utils_getAllSubscriptions w = (Inr xs, w\<lparr>ticks := Suc (ticks w)\<rparr>)"
  by (simp add: utils_getAllSubscriptions_def bind_def KV_get_def JSON_parse_def return_def)

lemma utils_getAll_present_untouched:
  assumes "fst (utils_getAllSubscriptions w) = Inr subs" and "subs \<noteq> []"
  shows "utils_getAllSubscriptions w = (Inr subs, w\<lparr>ticks := Suc (ticks w)\<rparr>)"
  using assms
  by (auto simp: utils_getAllSubscriptions_def bind_def KV_get_def KV_delete_def JSON_parse_def
      return_def throw_def lift_def
      split: option.splits if_splits blob.splits safeParse.splits)

text \<open>
  \<^verbatim>\<open>getAllSubscriptions\<close> of \<^verbatim>\<open>utils.ts\<close>: a stored value that parses as JSON and fails the
  schema is deleted, and the empty list is returned.
\<close>

lemma utils_getAll_self_heals:
  assumes "KV w SUBSCRIPTION_KV_KEY = Some (Doc v)" and "v_subscriptions v = Issues"
  shows "utils_getAllSubscriptions w
     = (Inr [], w\<lparr>KV := (KV w)(SUBSCRIPTION_KV_KEY := None), ticks := Suc (Suc (ticks w))\<rparr>)"
  using assms
  by (simp add: utils_getAllSubscriptions_def bind_def KV_get_def KV_delete_def JSON_parse_def
      return_def)

lemma find_channel_None:
  "find (\<lambda>s. channelId s = c) subs = None \<longleftrightarrow> c \<notin> channelId ` set subs"
  by (auto simp: find_None_iff)

lemma utils_add_eq:
  assumes "utils_getAllSubscriptions w = (Inr subs, w1)"
  shows "utils_addSubscription P e c w =
     (if c \<in> channelId ` set subs then (Inr (), w1)
      else
        (case fetch P (ticks w1)
                (hub_request c ''subscribe'' (API_SECRET e)
                   (''https://'' @ APP_DOMAIN e @ ''/callback'')) of
           Rejected \<Rightarrow>
             (Inl NetworkError,
              w1\<lparr>ticks := Suc (ticks w1),
                 sent := sent w1 @ [hub_request c ''subscribe'' (API_SECRET e)
                                      (''https://'' @ APP_DOMAIN e @ ''/callback'')]\<rparr>)
         | Response status \<Rightarrow>
             if response_ok status
             then (Inr (),
                   w1\<lparr>ticks := Suc (Suc (ticks w1)),
                     sent := sent w1 @ [hub_request c ''subscribe'' (API_SECRET e)
                                          (''https://'' @ APP_DOMAIN e @ ''/callback'')],
                     KV := (KV w1)(SUBSCRIPTION_KV_KEY \<mapsto>
                             JSON_stringify P
                               (JArr (map subscription_json
                                  (subs @ [\<lparr>channelId = c,
                                            lastSubscribedAt =
                                              Finite (Date_now P (Suc (ticks w1)))\<rparr>]))))\<rparr>)
             else (Inl (Error ''Failed to subscribe!''),
                   w1\<lparr>ticks := Suc (ticks w1),
                     sent := sent w1 @ [hub_request c ''subscribe'' (API_SECRET e)
                                          (''https://'' @ APP_DOMAIN e @ ''/callback'')]\<rparr>)))"
proof (cases "c \<in> channelId ` set subs")
  case True
  then have "find (\<lambda>s. channelId s = c) subs \<noteq> None"
    by (simp add: find_channel_None)
  with True show ?thesis
    unfolding utils_addSubscription_def
    by (simp add: bind_apply[of utils_getAllSubscriptions w, OF assms] return_def)
next
  case False
  then have "find (\<lambda>s. channelId s = c) subs = None"
    by (simp add: find_channel_None)
  with False show ?thesis
    unfolding utils_addSubscription_def
    by (simp add: bind_apply[of utils_getAllSubscriptions w, OF assms])
       (simp add: return_def bind_def requestSubscription_eq throw_def now_def KV_put_def
          split: fetch_result.splits)
qed

lemma utils_remove_eq:
  assumes "utils_getAllSubscriptions w = (Inr subs, w1)"
  shows "utils_removeSubscription P e c w =
     (if c \<notin> channelId ` set subs then (Inr (), w1)
      else
        (case fetch P (ticks w1)
                (hub_request c ''unsubscribe'' (API_SECRET e) (APP_DOMAIN e @ ''/callback'')) of
           Rejected \<Rightarrow>
             (Inl NetworkError,
              w1\<lparr>ticks := Suc (ticks w1),
                 sent := sent w1 @ [hub_request c ''unsubscribe'' (API_SECRET e)
                                      (APP_DOMAIN e @ ''/callback'')]\<rparr>)
         | Response status \<Rightarrow>
             if response_ok status
             then (Inr (),
                   w1\<lparr>ticks := Suc (Suc (ticks w1)),
                     sent := sent w1 @ [hub_request c ''unsubscribe'' (API_SECRET e)
                                          (APP_DOMAIN e @ ''/callback'')],
                     KV := (KV w1)(SUBSCRIPTION_KV_KEY \<mapsto>
                             JSON_stringify P
                               (JArr (map subscription_json
                                        (filter (\<lambda>s. channelId s \<noteq> c) subs))))\<rparr>)
             else (Inl (Error ''Failed to unsubscribe!''),
                   w1\<lparr>ticks := Suc (ticks w1),
                     sent := sent w1 @ [hub_request c ''unsubscribe'' (API_SECRET e)
                                          (APP_DOMAIN e @ ''/callback'')]\<rparr>)))"
proof (cases "c \<in> channelId ` set subs")
  case True
  then have "find (\<lambda>s. channelId s = c) subs \<noteq> None"
    by (simp add: find_channel_None)
  with True show ?thesis
    unfolding utils_removeSubscription_def
    by (simp add: bind_apply[of utils_getAllSubscriptions w, OF assms])
       (auto simp: return_def bind_def requestSubscription_eq throw_def KV_put_def
          split: fetch_result.splits)
next
  case False
  then have "find (\<lambda>s. channelId s = c) subs = None"
    by (simp add: find_channel_None)
  with False show ?thesis
    unfolding utils_removeSubscription_def
    by (simp add: bind_apply[of utils_getAllSubscriptions w, OF assms] return_def)
qed

section \<open>Callback URL: proofs\<close>

text \<open>
  In \<^verbatim>\<open>lib.ts\<close> the only request \<^verbatim>\<open>addSubscription\<close> and \<^verbatim>\<open>removeSubscription\<close> can send carries
  the same callback URL, \<^verbatim>\<open>https://\<close> + the app domain + \<^verbatim>\<open>/callback\<close>.
\<close>

lemma lib_callbackUrl_same:
  assumes "fst (lib_getAllSubscriptions w) = Inr (JArr (map Subscription_json subs))"
  shows "set (sent (snd (lib_addSubscription P e c w)))
           \<subseteq> insert (hub_request c ''subscribe'' (API_SECRET e)
                       (''https://'' @ APP_DOMAIN e @ ''/callback'')) (set (sent w))"
    and "set (sent (snd (lib_removeSubscription P e c w)))
           \<subseteq> insert (hub_request c ''unsubscribe'' (API_SECRET e)
                       (''https://'' @ APP_DOMAIN e @ ''/callback'')) (set (sent w))"
proof -
  show "set (sent (snd (lib_addSubscription P e c w)))
           \<subseteq> insert (hub_request c ''subscribe'' (API_SECRET e)
                       (''https://'' @ APP_DOMAIN e @ ''/callback'')) (set (sent w))"
  proof (cases "c \<in> fst ` set subs")
    case True
    from lib_add_present[OF assms True, of P e] show ?thesis by auto
  next
    case False
    from lib_add_new[OF assms False, of P e] show ?thesis
      by (auto split: fetch_result.splits if_splits)
  qed
  show "set (sent (snd (lib_removeSubscription P e c w)))
           \<subseteq> insert (hub_request c ''unsubscribe'' (API_SECRET e)
                       (''https://'' @ APP_DOMAIN e @ ''/callback'')) (set (sent w))"
  proof (cases "c \<in> fst ` set subs")
    case True
    from lib_remove_present[OF assms True, of P e] show ?thesis
      by (auto split: fetch_result.splits if_splits)
  next
    case False
    from lib_remove_absent[OF assms False, of P e] show ?thesis by auto
  qed
qed

text \<open>
  C10 on \<^verbatim>\<open>utils.ts\<close>. A channel is added and then removed, the hub answering 202 to both
  calls: \<^verbatim>\<open>addSubscription\<close> passes \<^verbatim>\<open>https://example.com/callback\<close>,
  \<^verbatim>\<open>removeSubscription\<close> passes \<^verbatim>\<open>example.com/callback\<close>, without the scheme.
\<close>

theorem utils_remove_callbackUrl_differs:
  "sent (snd (utils_addSubscription (test_platform JNull (\<lambda>t r. Response 202)) test_env ''UC1''
                empty_world))
     = [hub_request ''UC1'' ''subscribe'' ''secret'' ''https://example.com/callback'']
   \<and> sent (snd (utils_removeSubscription (test_platform JNull (\<lambda>t r. Response 202)) test_env
                  ''UC1''
                  (snd (utils_addSubscription (test_platform JNull (\<lambda>t r. Response 202))
                          test_env ''UC1'' empty_world))))
     = [hub_request ''UC1'' ''subscribe'' ''secret'' ''https://example.com/callback'',
        hub_request ''UC1'' ''unsubscribe'' ''secret'' ''example.com/callback'']"
  by (simp add: utils_addSubscription_def utils_removeSubscription_def
      utils_getAllSubscriptions_def requestSubscription_def response_ok_def io_defs schema_defs
      test_defs)

section \<open>Rejecting unverified pushes: proofs\<close>

text \<open>
  \<^verbatim>\<open>YoutubeNotifier.callback\<close> of \<^verbatim>\<open>lib.ts\<close>: when the header is absent or empty, or its
  verification does not return true, the call throws and the world is as it was: the
  parser is not consulted and nothing is sent.
\<close>

lemma lib_callback_rejects:
  assumes "signature = None \<or> signature = Some []
           \<or> (\<exists>sig. signature = Some sig
                  \<and> lib_verifyNotificationSignature P (API_SECRET e) sig xml \<noteq> Inr True)"
  shows "\<exists>err. lib_callback P e xml signature w = (Inl err, w)"
proof (cases signature)
  case None
  then show ?thesis by (simp add: lib_callback_def throw_def)
next
  case (Some sig)
  show ?thesis
  proof (cases "sig = []")
    case True
    with Some show ?thesis by (simp add: lib_callback_def throw_def)
  next
    case False
    with Some assms
    have nv: "lib_verifyNotificationSignature P (API_SECRET e) sig xml \<noteq> Inr True"
      by auto
    show ?thesis
    proof (cases "lib_verifyNotificationSignature P (API_SECRET e) sig xml")
      case (Inl err)
      with Some False show ?thesis by (simp add: lib_callback_def throw_def)
    next
      case (Inr b)
      with nv have "b = False" by simp
      with Inr Some False show ?thesis by (simp add: lib_callback_def throw_def)
    qed
  qed
qed

text \<open>
  C1 on \<^verbatim>\<open>part_001\<close>. A push arrives with the header \<^verbatim>\<open>x-hub-signature: sha-256=00\<close>, which
  does not verify (\<^verbatim>\<open>verifyNotificationSignature\<close> settles to false). The handler of
  \<^verbatim>\<open>part_001\<close> answers OK and forwards the video to the webhook;
  \<^verbatim>\<open>YoutubeNotifier.callback\<close> of \<^verbatim>\<open>lib.ts\<close> throws on the same push and sends nothing.
\<close>

theorem part001_forwards_unverified_push:
  "utils_verifyNotificationSignature (test_platform sample_feed (\<lambda>t r. Response 204))
      (API_SECRET test_env) ''sha-256=00'' ''<feed/>'' = Inr False
   \<and> fst (part001_post_callback (test_platform sample_feed (\<lambda>t r. Response 204)) test_env
            ''<feed/>'' (Some ''sha-256=00'') empty_world) = Inr (text_response ''OK'')
   \<and> sent (snd (part001_post_callback (test_platform sample_feed (\<lambda>t r. Response 204)) test_env
                  ''<feed/>'' (Some ''sha-256=00'') empty_world))
       = [discord_request ''https://discord.test/hook''
            ''New video from [A](http://a)\<newline>    **T**\<newline>    *Link unavailable*\<newline>    \<newline>    Published at <t:1704067200:f>\<newline>    Updated at <t:1704153600:f>'']
   \<and> lib_callback (test_platform sample_feed (\<lambda>t r. Response 204)) test_env
        ''<feed/>'' (Some ''sha-256=00'') empty_world = (Inl NotSupportedError, empty_world)"
  by (simp add: part001_post_callback_def utils_verifyNotificationSignature_def lib_callback_def
      lib_verifyNotificationSignature_def utils_sendDiscordNotification_def link_href_def
      new_Date_def io_defs hub_defs string_defs test_defs)

section \<open>Adding a subscription: proofs\<close>

lemma count_new:
  "c \<notin> fst ` set subs \<Longrightarrow> length (filter (\<lambda>s. fst s = c) (subs @ [(c, stamp)])) = 1"
  by (induction subs) auto

lemma count_new_utils:
  "c \<notin> channelId ` set subs
   \<Longrightarrow> length (filter (\<lambda>s. channelId s = c)
                 (map (\<lambda>s. if lastSubscribedAt s = NegZero
                                then s\<lparr>lastSubscribedAt := Finite 0\<rparr> else s) subs
                  @ [\<lparr>channelId = c, lastSubscribedAt = t\<rparr>])) = 1"
  by (induction subs) auto

text \<open>
  What \<^verbatim>\<open>utils.ts\<close> writes is read back as it was when no timestamp is an infinity, negative
  zero apart, which is read back as zero.
\<close>

lemma v_array_stringified:
  assumes "Infinity \<notin> lastSubscribedAt ` set xs" and "NegInfinity \<notin> lastSubscribedAt ` set xs"
  shows "v_array v_subscription
           (map (\<lambda>x. if x = JUndefined then JNull else x)
              (map (toJSON P) (map subscription_json xs)))
         = Output (map (\<lambda>s. if lastSubscribedAt s = NegZero
                              then s\<lparr>lastSubscribedAt := Finite 0\<rparr> else s) xs)"
  using assms
proof (induction xs)
  case Nil
  show ?case by simp
next
  case (Cons x xs)
  then have "lastSubscribedAt x \<noteq> Infinity" and "lastSubscribedAt x \<noteq> NegInfinity"
    by auto
  then have "v_subscription
               ((\<lambda>x. if x = JUndefined then JNull else x) (toJSON P (subscription_json x)))
             = Output (if lastSubscribedAt x = NegZero
                       then x\<lparr>lastSubscribedAt := Finite 0\<rparr> else x)"
    by (cases "lastSubscribedAt x")
       (simp_all add: subscription_json_def v_subscription_def object_entries_def required_def
          v_string_def v_number_def)
  with Cons show ?case by simp
qed

lemma utils_getAll_after_stringify:
  assumes "Infinity \<notin> lastSubscribedAt ` set xs" and "NegInfinity \<notin> lastSubscribedAt ` set xs"
    and "KV w SUBSCRIPTION_KV_KEY = Some (JSON_stringify P (JArr (map subscription_json xs)))"
  shows "fst (utils_getAllSubscriptions w)
         = Inr (map (\<lambda>s. if lastSubscribedAt s = NegZero
                          then s\<lparr>lastSubscribedAt := Finite 0\<rparr> else s) xs)"
  using assms(3) v_array_stringified[OF assms(1,2), of P]
  by (simp add: utils_getAllSubscriptions_def bind_def KV_get_def JSON_parse_def return_def
      JSON_stringify_def v_subscriptions_def)

lemma lib_add_then_listAll:
  assumes g: "fst (lib_getAllSubscriptions w) = Inr (JArr (map Subscription_json subs))"
    and n: "c \<notin> fst ` set subs"
    and ok: "fst (lib_addSubscription P e c w) = Inr ()"
  shows "\<exists>stamp. fst (lib_getAllSubscriptions (snd (lib_addSubscription P e c w)))
                 = Inr (JArr (map Subscription_json (subs @ [(c, stamp)])))
              \<and> length (filter (\<lambda>s. fst s = c) (subs @ [(c, stamp)])) = 1"
proof (cases "fetch P (Suc (ticks w))
                (hub_request c ''subscribe'' (API_SECRET e)
                   (''https://'' @ APP_DOMAIN e @ ''/callback''))")
  case Rejected
  with ok lib_add_new[OF g n, of P e] show ?thesis by simp
next
  case (Response status)
  with ok lib_add_new[OF g n, of P e] have s: "response_ok status"
    by (simp split: if_splits)
  let ?stamp = "Date_toISOString P (Date_now P (Suc (Suc (ticks w))))"
  have "KV (snd (lib_addSubscription P e c w)) ''subscriptions''
          = Some (Doc (JArr (map Subscription_json (subs @ [(c, ?stamp)]))))"
    using Response s lib_add_new[OF g n, of P e] by simp
  then have "fst (lib_getAllSubscriptions (snd (lib_addSubscription P e c w)))
          = Inr (JArr (map Subscription_json (subs @ [(c, ?stamp)])))"
    by (rule lib_getAll_after_put)
  with count_new[OF n] show ?thesis by blast
qed

lemma utils_add_then_listAll:
  assumes g: "fst (utils_getAllSubscriptions w) = Inr subs"
    and fin: "Infinity \<notin> lastSubscribedAt ` set subs"
      "NegInfinity \<notin> lastSubscribedAt ` set subs"
    and n: "c \<notin> channelId ` set subs"
    and ok: "fst (utils_addSubscription P e c w) = Inr ()"
  shows "\<exists>t. fst (utils_getAllSubscriptions (snd (utils_addSubscription P e c w)))
                 = Inr (map (\<lambda>s. if lastSubscribedAt s = NegZero
                                  then s\<lparr>lastSubscribedAt := Finite 0\<rparr> else s) subs
                        @ [\<lparr>channelId = c, lastSubscribedAt = Finite t\<rparr>])
              \<and> length (filter (\<lambda>s. channelId s = c)
                          (map (\<lambda>s. if lastSubscribedAt s = NegZero
                                         then s\<lparr>lastSubscribedAt := Finite 0\<rparr> else s) subs
                           @ [\<lparr>channelId = c, lastSubscribedAt = Finite t\<rparr>])) = 1"
proof -
  obtain w1 where g1: "utils_getAllSubscriptions w = (Inr subs, w1)"
    using g by (cases "utils_getAllSubscriptions w") auto
  note eq = utils_add_eq[OF g1, of P e c]
  show ?thesis
  proof (cases "fetch P (ticks w1)
                  (hub_request c ''subscribe'' (API_SECRET e)
                     (''https://'' @ APP_DOMAIN e @ ''/callback''))")
    case Rejected
    with ok eq n show ?thesis by simp
  next
    case (Response status)
    with ok eq n have s: "response_ok status"
      by (simp split: if_splits)
    let ?t = "Date_now P (Suc (ticks w1))"
    let ?new = "subs @ [\<lparr>channelId = c, lastSubscribedAt = Finite ?t\<rparr>]"
    have fin': "Infinity \<notin> lastSubscribedAt ` set ?new"
      "NegInfinity \<notin> lastSubscribedAt ` set ?new"
      using fin by auto
    have "KV (snd (utils_addSubscription P e c w)) SUBSCRIPTION_KV_KEY
          = Some (JSON_stringify P (JArr (map subscription_json ?new)))"
      using Response s eq n by simp
    from utils_getAll_after_stringify[OF fin' this]
    have "fst (utils_getAllSubscriptions (snd (utils_addSubscription P e c w)))
          = Inr (map (\<lambda>s. if lastSubscribedAt s = NegZero
                            then s\<lparr>lastSubscribedAt := Finite 0\<rparr> else s) subs
                 @ [\<lparr>channelId = c, lastSubscribedAt = Finite ?t\<rparr>])"
      by simp
    with count_new_utils[OF n] show ?thesis by blast
  qed
qed

lemma utils_add_present:
  assumes g: "fst (utils_getAllSubscriptions w) = Inr subs"
    and n: "c \<in> channelId ` set subs"
  shows "utils_addSubscription P e c w = (Inr (), w\<lparr>ticks := Suc (ticks w)\<rparr>)"
proof -
  from n have "subs \<noteq> []" by auto
  from utils_getAll_present_untouched[OF g this] n show ?thesis
    by (simp add: utils_add_eq)
qed

lemma lib_add_accepted:
  assumes g: "fst (lib_getAllSubscriptions w) = Inr (JArr (map Subscription_json subs))"
    and n: "c \<notin> fst ` set subs"
    and f: "fetch P (Suc (ticks w))
              (hub_request c ''subscribe'' (API_SECRET e)
                 (''https://'' @ APP_DOMAIN e @ ''/callback''))
            = Response status"
    and s: "response_ok status"
  shows "fst (lib_addSubscription P e c w) = Inr ()"
  using lib_add_new[OF g n, of P e] f s by simp

lemma utils_add_accepted:
  assumes g: "fst (utils_getAllSubscriptions w) = Inr subs"
    and n: "c \<notin> channelId ` set subs"
    and f: "fetch P (ticks (snd (utils_getAllSubscriptions w)))
              (hub_request c ''subscribe'' (API_SECRET e)
                 (''https://'' @ APP_DOMAIN e @ ''/callback''))
            = Response status"
    and s: "response_ok status"
  shows "fst (utils_addSubscription P e c w) = Inr ()"
proof -
  obtain w1 where g1: "utils_getAllSubscriptions w = (Inr subs, w1)"
    using g by (cases "utils_getAllSubscriptions w") auto
  with f have "fetch P (ticks w1)
              (hub_request c ''subscribe'' (API_SECRET e)
                 (''https://'' @ APP_DOMAIN e @ ''/callback''))
            = Response status"
    by simp
  with utils_add_eq[OF g1, of P e c] n s show ?thesis by simp
qed

text \<open>
  C8, as the code has it, for both registries. The registry is what \<^verbatim>\<open>listAll\<close> returns: in
  \<^verbatim>\<open>lib.ts\<close> the stored array of subscriptions \<open>subs\<close>, in \<^verbatim>\<open>utils.ts\<close> the validated list
  \<open>usubs\<close>, none of whose timestamps is an infinity. When the channel is not in it and \<^verbatim>\<open>add\<close>
  returns (does not throw), \<^verbatim>\<open>listAll\<close> afterwards returns the old list (in \<^verbatim>\<open>utils.ts\<close> with
  a timestamp of negative zero read back as zero) followed by one new entry for the
  channel, so exactly one entry has that channelId. When the channel is in it, \<^verbatim>\<open>add\<close>
  returns success and the world is as it was but for the tick of the one read: nothing is
  stored and nothing is sent. And \<^verbatim>\<open>add\<close> of a new channel does return whenever the hub
  answers its request with a success status.
\<close>

theorem add_then_listAll:
  "(fst (lib_getAllSubscriptions w) = Inr (JArr (map Subscription_json subs))
      \<and> c \<notin> fst ` set subs \<and> fst (lib_addSubscription P e c w) = Inr ()
      \<longrightarrow> (\<exists>stamp. fst (lib_getAllSubscriptions (snd (lib_addSubscription P e c w)))
                    = Inr (JArr (map Subscription_json (subs @ [(c, stamp)])))
                 \<and> length (filter (\<lambda>s. fst s = c) (subs @ [(c, stamp)])) = 1))
   \<and> (fst (lib_getAllSubscriptions w) = Inr (JArr (map Subscription_json subs))
      \<and> c \<in> fst ` set subs
      \<longrightarrow> lib_addSubscription P e c w = (Inr (), w\<lparr>ticks := Suc (ticks w)\<rparr>))
   \<and> (fst (utils_getAllSubscriptions w) = Inr usubs
      \<and> Infinity \<notin> lastSubscribedAt ` set usubs
      \<and> NegInfinity \<notin> lastSubscribedAt ` set usubs
      \<and> c \<notin> channelId ` set usubs \<and> fst (utils_addSubscription P e c w) = Inr ()
      \<longrightarrow> (\<exists>t. fst (utils_getAllSubscriptions (snd (utils_addSubscription P e c w)))
                    = Inr (map (\<lambda>s. if lastSubscribedAt s = NegZero
                                     then s\<lparr>lastSubscribedAt := Finite 0\<rparr> else s) usubs
                           @ [\<lparr>channelId = c, lastSubscribedAt = Finite t\<rparr>])
                 \<and> length (filter (\<lambda>s. channelId s = c)
                             (map (\<lambda>s. if lastSubscribedAt s = NegZero
                                            then s\<lparr>lastSubscribedAt := Finite 0\<rparr> else s) usubs
                              @ [\<lparr>channelId = c, lastSubscribedAt = Finite t\<rparr>])) = 1))
   \<and> (fst (utils_getAllSubscriptions w) = Inr usubs \<and> c \<in> channelId ` set usubs
      \<longrightarrow> utils_addSubscription P e c w = (Inr (), w\<lparr>ticks := Suc (ticks w)\<rparr>))
   \<and> (fst (lib_getAllSubscriptions w) = Inr (JArr (map Subscription_json subs))
      \<and> c \<notin> fst ` set subs
      \<and> fetch P (Suc (ticks w))
           (hub_request c ''subscribe'' (API_SECRET e)
              (''https://'' @ APP_DOMAIN e @ ''/callback''))
         = Response status
      \<and> response_ok status
      \<longrightarrow> fst (lib_addSubscription P e c w) = Inr ())
   \<and> (fst (utils_getAllSubscriptions w) = Inr usubs
      \<and> c \<notin> channelId ` set usubs
      \<and> fetch P (ticks (snd (utils_getAllSubscriptions w)))
           (hub_request c ''subscribe'' (API_SECRET e)
              (''https://'' @ APP_DOMAIN e @ ''/callback''))
         = Response status
      \<and> response_ok status
      \<longrightarrow> fst (utils_addSubscription P e c w) = Inr ())"
  using lib_add_then_listAll[of w subs c P e] lib_add_present[of w subs c P e]
    utils_add_then_listAll[of w usubs c P e] utils_add_present[of w usubs c P e]
    lib_add_accepted[of w subs c P e status] utils_add_accepted[of w usubs c P e status]
  by blast

text \<open>
  The theorem at the empty store with a hub that answers 202: the channel \<^verbatim>\<open>UC1\<close> is added,
  \<^verbatim>\<open>listAll\<close> then returns the one entry, and adding it again returns success and sends
  nothing more; in \<^verbatim>\<open>utils.ts\<close> the channel \<^verbatim>\<open>UC2\<close> is then added, and \<^verbatim>\<open>listAll\<close> returns
  the two entries.
\<close>

theorem add_then_listAll_witness:
  "fst (lib_getAllSubscriptions empty_world) = Inr (JArr (map Subscription_json []))
   \<and> fst (lib_addSubscription (test_platform JNull (\<lambda>t r. Response 202)) test_env ''UC1''
            empty_world)
     = Inr ()
   \<and> fst (lib_getAllSubscriptions
            (snd (lib_addSubscription (test_platform JNull (\<lambda>t r. Response 202)) test_env ''UC1''
                    empty_world)))
     = Inr (JArr (map Subscription_json [(''UC1'', ''ISO:1700000000002'')]))
   \<and> fst (lib_addSubscription (test_platform JNull (\<lambda>t r. Response 202)) test_env ''UC1''
            (snd (lib_addSubscription (test_platform JNull (\<lambda>t r. Response 202)) test_env ''UC1''
                    empty_world)))
     = Inr ()
   \<and> sent (snd (lib_addSubscription (test_platform JNull (\<lambda>t r. Response 202)) test_env ''UC1''
            (snd (lib_addSubscription (test_platform JNull (\<lambda>t r. Response 202)) test_env ''UC1''
                    empty_world))))
     = sent (snd (lib_addSubscription (test_platform JNull (\<lambda>t r. Response 202)) test_env ''UC1''
                    empty_world))
   \<and> fst (utils_getAllSubscriptions empty_world) = Inr []
   \<and> fst (utils_addSubscription (test_platform JNull (\<lambda>t r. Response 202)) test_env ''UC1''
            empty_world)
     = Inr ()
   \<and> fst (utils_getAllSubscriptions
            (snd (utils_addSubscription (test_platform JNull (\<lambda>t r. Response 202)) test_env ''UC1''
                    empty_world)))
     = Inr [\<lparr>channelId = ''UC1'', lastSubscribedAt = Finite 1700000000002\<rparr>]
   \<and> fst (utils_addSubscription (test_platform JNull (\<lambda>t r. Response 202)) test_env ''UC1''
            (snd (utils_addSubscription (test_platform JNull (\<lambda>t r. Response 202)) test_env ''UC1''
                    empty_world)))
     = Inr ()
   \<and> sent (snd (utils_addSubscription (test_platform JNull (\<lambda>t r. Response 202)) test_env ''UC1''
            (snd (utils_addSubscription (test_platform JNull (\<lambda>t r. Response 202)) test_env ''UC1''
                    empty_world))))
     = sent (snd (utils_addSubscription (test_platform JNull (\<lambda>t r. Response 202)) test_env ''UC1''
                    empty_world))
   \<and> fst (utils_getAllSubscriptions
            (snd (utils_addSubscription (test_platform JNull (\<lambda>t r. Response 202)) test_env ''UC2''
                    (snd (utils_addSubscription (test_platform JNull (\<lambda>t r. Response 202))
                            test_env ''UC1'' empty_world)))))
     = Inr [\<lparr>channelId = ''UC1'', lastSubscribedAt = Finite 1700000000002\<rparr>,
            \<lparr>channelId = ''UC2'', lastSubscribedAt = Finite 1700000000005\<rparr>]"
  using add_then_listAll
      [where w = empty_world and subs = "[]" and usubs = "[]" and c = "''UC1''"
         and P = "test_platform JNull (\<lambda>t r. Response 202)" and e = test_env
         and status = 202]
    add_then_listAll
      [where w = "snd (lib_addSubscription (test_platform JNull (\<lambda>t r. Response 202)) test_env
                         ''UC1'' empty_world)"
         and subs = "[(''UC1'', ''ISO:1700000000002'')]" and usubs = "[]" and c = "''UC1''"
         and P = "test_platform JNull (\<lambda>t r. Response 202)" and e = test_env
         and status = 202]
    add_then_listAll
      [where w = "snd (utils_addSubscription (test_platform JNull (\<lambda>t r. Response 202)) test_env
                         ''UC1'' empty_world)"
         and subs = "[]" and c = "''UC1''"
         and usubs = "[\<lparr>channelId = ''UC1'', lastSubscribedAt = Finite 1700000000002\<rparr>]"
         and P = "test_platform JNull (\<lambda>t r. Response 202)" and e = test_env
         and status = 202]
    add_then_listAll
      [where w = "snd (utils_addSubscription (test_platform JNull (\<lambda>t r. Response 202)) test_env
                         ''UC1'' empty_world)"
         and subs = "[]" and c = "''UC2''"
         and usubs = "[\<lparr>channelId = ''UC1'', lastSubscribedAt = Finite 1700000000002\<rparr>]"
         and P = "test_platform JNull (\<lambda>t r. Response 202)" and e = test_env
         and status = 202]
  by (simp add: lib_addSubscription_def utils_addSubscription_def lib_getAllSubscriptions_def
      utils_getAllSubscriptions_def as_Array_def Subscription_json_def
      io_defs hub_defs string_defs schema_defs test_defs)

text \<open>
  C8 as stated fails in \<^verbatim>\<open>utils.ts\<close> over a stored timestamp that is an infinity. The store
  holds \<^verbatim>\<open>[{"channelId":"UC0","lastSubscribedAt":1e400}]\<close>, which \<^verbatim>\<open>JSON.parse\<close> reads as
  \<^verbatim>\<open>Infinity\<close> and \<^verbatim>\<open>number()\<close> accepts; the hub answers 202. Adding \<^verbatim>\<open>UC1\<close> returns, the list is
  written with \<^verbatim>\<open>null\<close> for the infinity, and \<^verbatim>\<open>listAll\<close> then deletes it and returns the empty
  list: no entry has the channelId \<^verbatim>\<open>UC1\<close>.
\<close>

theorem utils_add_infinite_timestamp_counterexample:
  "fst (utils_getAllSubscriptions
          (empty_world\<lparr>KV := [SUBSCRIPTION_KV_KEY \<mapsto>
              Doc (JArr [JObj [(''channelId'', JStr ''UC0''),
                               (''lastSubscribedAt'', JNum Infinity)]])]\<rparr>))
     = Inr [\<lparr>channelId = ''UC0'', lastSubscribedAt = Infinity\<rparr>]
   \<and> fst (utils_addSubscription (test_platform JNull (\<lambda>t r. Response 202)) test_env ''UC1''
            (empty_world\<lparr>KV := [SUBSCRIPTION_KV_KEY \<mapsto>
                Doc (JArr [JObj [(''channelId'', JStr ''UC0''),
                                 (''lastSubscribedAt'', JNum Infinity)]])]\<rparr>))
     = Inr ()
   \<and> fst (utils_getAllSubscriptions
            (snd (utils_addSubscription (test_platform JNull (\<lambda>t r. Response 202)) test_env ''UC1''
                    (empty_world\<lparr>KV := [SUBSCRIPTION_KV_KEY \<mapsto>
                        Doc (JArr [JObj [(''channelId'', JStr ''UC0''),
                                         (''lastSubscribedAt'', JNum Infinity)]])]\<rparr>))))
     = Inr []"
  by (simp add: utils_addSubscription_def utils_getAllSubscriptions_def
      io_defs hub_defs schema_defs test_defs)
section \<open>Hub failure on add and remove: proofs\<close>

lemma lib_add_hub_failure:
  assumes g: "fst (lib_getAllSubscriptions w) = Inr (JArr (map Subscription_json subs))"
    and n: "c \<notin> fst ` set subs"
    and f: "fetch P (Suc (ticks w))
              (hub_request c ''subscribe'' (API_SECRET e)
                 (''https://'' @ APP_DOMAIN e @ ''/callback''))
            = Response status"
    and s: "\<not> response_ok status"
  shows "fst (lib_addSubscription P e c w) = Inl (Error ''Failed to subscribe'')
         \<and> KV (snd (lib_addSubscription P e c w)) = KV w"
  using lib_add_new[OF g n, of P e] f s by simp

lemma lib_remove_hub_failure:
  assumes g: "fst (lib_getAllSubscriptions w) = Inr (JArr (map Subscription_json subs))"
    and n: "c \<in> fst ` set subs"
    and f: "fetch P (Suc (ticks w))
              (hub_request c ''unsubscribe'' (API_SECRET e)
                 (''https://'' @ APP_DOMAIN e @ ''/callback''))
            = Response status"
    and s: "\<not> response_ok status"
  shows "fst (lib_removeSubscription P e c w) = Inl (Error ''Failed to unsubscribe'')
         \<and> KV (snd (lib_removeSubscription P e c w)) = KV w"
  using lib_remove_present[OF g n, of P e] f s by simp

lemma utils_add_hub_failure:
  assumes g: "utils_getAllSubscriptions w = (Inr subs, w\<lparr>ticks := Suc (ticks w)\<rparr>)"
    and n: "c \<notin> channelId ` set subs"
    and f: "fetch P (Suc (ticks w))
              (hub_request c ''subscribe'' (API_SECRET e)
                 (''https://'' @ APP_DOMAIN e @ ''/callback''))
            = Response status"
    and s: "\<not> response_ok status"
  shows "fst (utils_addSubscription P e c w) = Inl (Error ''Failed to subscribe!'')
         \<and> KV (snd (utils_addSubscription P e c w)) = KV w"
  using utils_add_eq[OF g, of P e c] n f s by simp

lemma utils_remove_hub_failure:
  assumes g: "fst (utils_getAllSubscriptions w) = Inr subs"
    and n: "c \<in> channelId ` set subs"
    and f: "fetch P (Suc (ticks w))
              (hub_request c ''unsubscribe'' (API_SECRET e) (APP_DOMAIN e @ ''/callback''))
            = Response status"
    and s: "\<not> response_ok status"
  shows "fst (utils_removeSubscription P e c w) = Inl (Error ''Failed to unsubscribe!'')
         \<and> KV (snd (utils_removeSubscription P e c w)) = KV w"
proof -
  from n have "subs \<noteq> []" by auto
  from utils_getAll_present_untouched[OF g this]
  show ?thesis
    using utils_remove_eq[of w subs "w\<lparr>ticks := Suc (ticks w)\<rparr>" P e c] n f s by simp
qed

lemma utils_getAll_stable:
  assumes "utils_getAllSubscriptions w = (Inr subs, w1)" and "KV w2 = KV w1"
  shows "fst (utils_getAllSubscriptions w2) = Inr subs"
  using assms
  by (auto simp: utils_getAllSubscriptions_def bind_def KV_get_def KV_delete_def JSON_parse_def
      return_def throw_def lift_def
      split: option.splits if_splits blob.splits safeParse.splits)

lemma utils_add_hub_failure_listAll:
  assumes g: "fst (utils_getAllSubscriptions w) = Inr subs"
    and n: "c \<notin> channelId ` set subs"
    and f: "fetch P (ticks (snd (utils_getAllSubscriptions w)))
              (hub_request c ''subscribe'' (API_SECRET e)
                 (''https://'' @ APP_DOMAIN e @ ''/callback''))
            = Response status"
    and s: "\<not> response_ok status"
  shows "fst (utils_addSubscription P e c w) = Inl (Error ''Failed to subscribe!'')
         \<and> KV (snd (utils_addSubscription P e c w)) = KV (snd (utils_getAllSubscriptions w))
         \<and> fst (utils_getAllSubscriptions (snd (utils_addSubscription P e c w))) = Inr subs"
proof -
  obtain w1 where g1: "utils_getAllSubscriptions w = (Inr subs, w1)"
    using g by (cases "utils_getAllSubscriptions w") auto
  with f have f1: "fetch P (ticks w1)
              (hub_request c ''subscribe'' (API_SECRET e)
                 (''https://'' @ APP_DOMAIN e @ ''/callback''))
            = Response status"
    by simp
  have a: "utils_addSubscription P e c w
        = (Inl (Error ''Failed to subscribe!''),
           w1\<lparr>ticks := Suc (ticks w1),
              sent := sent w1 @ [hub_request c ''subscribe'' (API_SECRET e)
                                   (''https://'' @ APP_DOMAIN e @ ''/callback'')]\<rparr>)"
    using utils_add_eq[OF g1, of P e c] n f1 s by simp
  have "fst (utils_getAllSubscriptions
               (w1\<lparr>ticks := Suc (ticks w1),
                   sent := sent w1 @ [hub_request c ''subscribe'' (API_SECRET e)
                                        (''https://'' @ APP_DOMAIN e @ ''/callback'')]\<rparr>))
        = Inr subs"
    by (rule utils_getAll_stable[OF g1]) simp
  with a g1 show ?thesis by simp
qed

lemma utils_add_hub_failure_corrupt:
  assumes k: "KV w SUBSCRIPTION_KV_KEY = Some (Doc v)"
    and v: "v_subscriptions v = Issues"
    and f: "fetch P (Suc (Suc (ticks w)))
              (hub_request c ''subscribe'' (API_SECRET e)
                 (''https://'' @ APP_DOMAIN e @ ''/callback''))
            = Response status"
    and s: "\<not> response_ok status"
  shows "fst (utils_addSubscription P e c w) = Inl (Error ''Failed to subscribe!'')
         \<and> KV (snd (utils_addSubscription P e c w)) = (KV w)(SUBSCRIPTION_KV_KEY := None)"
  using utils_add_eq[OF utils_getAll_self_heals[OF k v], of P e c] f s by simp

text \<open>
  C9, as the code has it, for both registries. The call to the hub is made when \<^verbatim>\<open>add\<close>
  does not find the channel and when \<^verbatim>\<open>remove\<close> finds it; it is the second awaited
  operation, after the read.
  When the hub answers it with a status that is not a success, \<^verbatim>\<open>add\<close> throws
  \<^verbatim>\<open>Failed to subscribe\<close> and \<^verbatim>\<open>remove\<close> throws \<^verbatim>\<open>Failed to unsubscribe\<close> (with \<^verbatim>\<open>!\<close> in
  \<^verbatim>\<open>utils.ts\<close>), and the store is the one before the call. For \<^verbatim>\<open>add\<close> of \<^verbatim>\<open>utils.ts\<close> that
  is so in a registry state the read leaves alone (absent, empty or valid); in every state
  \<^verbatim>\<open>add\<close> itself writes nothing (the store is the one its read left) and \<^verbatim>\<open>listAll\<close>
  afterwards returns what it returned before; and over a stored value that fails the
  schema, the store after the call is the store before it with the key deleted.
\<close>

theorem hub_failure_leaves_registry:
  "(fst (lib_getAllSubscriptions w) = Inr (JArr (map Subscription_json subs))
      \<and> c \<notin> fst ` set subs
      \<and> fetch P (Suc (ticks w))
           (hub_request c ''subscribe'' (API_SECRET e)
              (''https://'' @ APP_DOMAIN e @ ''/callback''))
         = Response status
      \<and> \<not> response_ok status
      \<longrightarrow> fst (lib_addSubscription P e c w) = Inl (Error ''Failed to subscribe'')
          \<and> KV (snd (lib_addSubscription P e c w)) = KV w)
   \<and> (fst (lib_getAllSubscriptions w) = Inr (JArr (map Subscription_json subs))
      \<and> c \<in> fst ` set subs
      \<and> fetch P (Suc (ticks w))
           (hub_request c ''unsubscribe'' (API_SECRET e)
              (''https://'' @ APP_DOMAIN e @ ''/callback''))
         = Response status
      \<and> \<not> response_ok status
      \<longrightarrow> fst (lib_removeSubscription P e c w) = Inl (Error ''Failed to unsubscribe'')
          \<and> KV (snd (lib_removeSubscription P e c w)) = KV w)
   \<and> (utils_getAllSubscriptions w = (Inr usubs, w\<lparr>ticks := Suc (ticks w)\<rparr>)
      \<and> c \<notin> channelId ` set usubs
      \<and> fetch P (Suc (ticks w))
           (hub_request c ''subscribe'' (API_SECRET e)
              (''https://'' @ APP_DOMAIN e @ ''/callback''))
         = Response status
      \<and> \<not> response_ok status
      \<longrightarrow> fst (utils_addSubscription P e c w) = Inl (Error ''Failed to subscribe!'')
          \<and> KV (snd (utils_addSubscription P e c w)) = KV w)
   \<and> (fst (utils_getAllSubscriptions w) = Inr usubs
      \<and> c \<in> channelId ` set usubs
      \<and> fetch P (Suc (ticks w))
           (hub_request c ''unsubscribe'' (API_SECRET e) (APP_DOMAIN e @ ''/callback''))
         = Response status
      \<and> \<not> response_ok status
      \<longrightarrow> fst (utils_removeSubscription P e c w) = Inl (Error ''Failed to unsubscribe!'')
          \<and> KV (snd (utils_removeSubscription P e c w)) = KV w)
   \<and> (fst (utils_getAllSubscriptions w) = Inr usubs
      \<and> c \<notin> channelId ` set usubs
      \<and> fetch P (ticks (snd (utils_getAllSubscriptions w)))
           (hub_request c ''subscribe'' (API_SECRET e)
              (''https://'' @ APP_DOMAIN e @ ''/callback''))
         = Response status
      \<and> \<not> response_ok status
      \<longrightarrow> fst (utils_addSubscription P e c w) = Inl (Error ''Failed to subscribe!'')
          \<and> KV (snd (utils_addSubscription P e c w)) = KV (snd (utils_getAllSubscriptions w))
          \<and> fst (utils_getAllSubscriptions (snd (utils_addSubscription P e c w))) = Inr usubs)
   \<and> (KV w SUBSCRIPTION_KV_KEY = Some (Doc v)
      \<and> v_subscriptions v = Issues
      \<and> fetch P (Suc (Suc (ticks w)))
           (hub_request c ''subscribe'' (API_SECRET e)
              (''https://'' @ APP_DOMAIN e @ ''/callback''))
         = Response status
      \<and> \<not> response_ok status
      \<longrightarrow> fst (utils_addSubscription P e c w) = Inl (Error ''Failed to subscribe!'')
          \<and> KV (snd (utils_addSubscription P e c w)) = (KV w)(SUBSCRIPTION_KV_KEY := None))"
  using lib_add_hub_failure[of w subs c P e status]
    lib_remove_hub_failure[of w subs c P e status]
    utils_add_hub_failure[of w usubs c P e status]
    utils_remove_hub_failure[of w usubs c P e status]
    utils_add_hub_failure_listAll[of w usubs c P e status]
    utils_add_hub_failure_corrupt[of w v P c e status]
  by blast

text \<open>
  The theorem with a hub that answers 500: adding \<^verbatim>\<open>UC1\<close> to the empty store and removing it
  from a store that holds it both throw, and the stored value stays; adding it in
  \<^verbatim>\<open>utils.ts\<close> over a stored value that fails the schema throws too, and \<^verbatim>\<open>listAll\<close> returns
  the empty list before and after.
\<close>

theorem hub_failure_leaves_registry_witness:
  "fetch (test_platform JNull (\<lambda>t r. Response 500)) 1
      (hub_request ''UC1'' ''subscribe'' (API_SECRET test_env)
         (''https://'' @ APP_DOMAIN test_env @ ''/callback'')) = Response 500
   \<and> \<not> response_ok 500
   \<and> utils_getAllSubscriptions empty_world = (Inr [], empty_world\<lparr>ticks := Suc 0\<rparr>)
   \<and> lib_addSubscription (test_platform JNull (\<lambda>t r. Response 500)) test_env ''UC1'' empty_world
     = (Inl (Error ''Failed to subscribe''),
        empty_world\<lparr>ticks := 2,
          sent := [hub_request ''UC1'' ''subscribe'' ''secret'' ''https://example.com/callback'']\<rparr>)
   \<and> fst (lib_removeSubscription (test_platform JNull (\<lambda>t r. Response 500)) test_env ''UC1''
            (empty_world\<lparr>KV := [''subscriptions'' \<mapsto>
                Doc (JArr (map Subscription_json [(''UC1'', ''ISO:1700000000002'')]))]\<rparr>))
     = Inl (Error ''Failed to unsubscribe'')
   \<and> KV (snd (lib_removeSubscription (test_platform JNull (\<lambda>t r. Response 500)) test_env ''UC1''
            (empty_world\<lparr>KV := [''subscriptions'' \<mapsto>
                Doc (JArr (map Subscription_json [(''UC1'', ''ISO:1700000000002'')]))]\<rparr>)))
        ''subscriptions''
     = Some (Doc (JArr (map Subscription_json [(''UC1'', ''ISO:1700000000002'')])))
   \<and> utils_addSubscription (test_platform JNull (\<lambda>t r. Response 500)) test_env ''UC1'' empty_world
     = (Inl (Error ''Failed to subscribe!''),
        empty_world\<lparr>ticks := 2,
          sent := [hub_request ''UC1'' ''subscribe'' ''secret'' ''https://example.com/callback'']\<rparr>)
   \<and> fst (utils_removeSubscription (test_platform JNull (\<lambda>t r. Response 500)) test_env ''UC1''
            (empty_world\<lparr>KV := [SUBSCRIPTION_KV_KEY \<mapsto>
                Doc (JArr (map subscription_json
                             [\<lparr>channelId = ''UC1'', lastSubscribedAt = Finite 1000\<rparr>]))]\<rparr>))
     = Inl (Error ''Failed to unsubscribe!'')
   \<and> KV (snd (utils_removeSubscription (test_platform JNull (\<lambda>t r. Response 500)) test_env ''UC1''
            (empty_world\<lparr>KV := [SUBSCRIPTION_KV_KEY \<mapsto>
                Doc (JArr (map subscription_json
                             [\<lparr>channelId = ''UC1'', lastSubscribedAt = Finite 1000\<rparr>]))]\<rparr>)))
        SUBSCRIPTION_KV_KEY
     = Some (Doc (JArr (map subscription_json
                          [\<lparr>channelId = ''UC1'', lastSubscribedAt = Finite 1000\<rparr>])))
   \<and> fst (utils_getAllSubscriptions
            (empty_world\<lparr>KV := [SUBSCRIPTION_KV_KEY \<mapsto>
                Doc (JObj [(''channelId'', JStr ''UC1'')])]\<rparr>))
     = Inr []
   \<and> fst (utils_addSubscription (test_platform JNull (\<lambda>t r. Response 500)) test_env ''UC1''
            (empty_world\<lparr>KV := [SUBSCRIPTION_KV_KEY \<mapsto>
                Doc (JObj [(''channelId'', JStr ''UC1'')])]\<rparr>))
     = Inl (Error ''Failed to subscribe!'')
   \<and> fst (utils_getAllSubscriptions
            (snd (utils_addSubscription (test_platform JNull (\<lambda>t r. Response 500)) test_env
                    ''UC1''
                    (empty_world\<lparr>KV := [SUBSCRIPTION_KV_KEY \<mapsto>
                        Doc (JObj [(''channelId'', JStr ''UC1'')])]\<rparr>))))
     = Inr []
   \<and> KV (snd (utils_addSubscription (test_platform JNull (\<lambda>t r. Response 500)) test_env ''UC1''
               (empty_world\<lparr>KV := [SUBSCRIPTION_KV_KEY \<mapsto>
                   Doc (JObj [(''channelId'', JStr ''UC1'')])]\<rparr>)))
     = (\<lambda>key. None)"
  using hub_failure_leaves_registry
      [where w = empty_world and subs = "[]" and usubs = "[]" and c = "''UC1''"
         and P = "test_platform JNull (\<lambda>t r. Response 500)" and e = test_env and status = 500
         and v = "JObj [(''channelId'', JStr ''UC1'')]"]
    hub_failure_leaves_registry
      [where w = "empty_world\<lparr>KV := [''subscriptions'' \<mapsto>
                Doc (JArr (map Subscription_json [(''UC1'', ''ISO:1700000000002'')]))]\<rparr>"
         and subs = "[(''UC1'', ''ISO:1700000000002'')]" and usubs = "[]" and c = "''UC1''"
         and P = "test_platform JNull (\<lambda>t r. Response 500)" and e = test_env and status = 500
         and v = "JObj [(''channelId'', JStr ''UC1'')]"]
    hub_failure_leaves_registry
      [where w = "empty_world\<lparr>KV := [SUBSCRIPTION_KV_KEY \<mapsto>
                Doc (JArr (map subscription_json
                             [\<lparr>channelId = ''UC1'', lastSubscribedAt = Finite 1000\<rparr>]))]\<rparr>"
         and subs = "[]" and c = "''UC1''"
         and usubs = "[\<lparr>channelId = ''UC1'', lastSubscribedAt = Finite 1000\<rparr>]"
         and P = "test_platform JNull (\<lambda>t r. Response 500)" and e = test_env and status = 500
         and v = "JObj [(''channelId'', JStr ''UC1'')]"]
    hub_failure_leaves_registry
      [where w = "empty_world\<lparr>KV := [SUBSCRIPTION_KV_KEY \<mapsto>
                Doc (JObj [(''channelId'', JStr ''UC1'')])]\<rparr>"
         and subs = "[]" and usubs = "[]" and c = "''UC1''"
         and P = "test_platform JNull (\<lambda>t r. Response 500)" and e = test_env and status = 500
         and v = "JObj [(''channelId'', JStr ''UC1'')]"]
  by (simp add: lib_addSubscription_def utils_addSubscription_def lib_removeSubscription_def
      utils_removeSubscription_def lib_getAllSubscriptions_def
      utils_getAllSubscriptions_def as_Array_def Subscription_json_def
      io_defs hub_defs string_defs schema_defs test_defs)

text \<open>
  C9 as stated fails for \<^verbatim>\<open>add\<close> of \<^verbatim>\<open>utils.ts\<close> over a stored value that fails the schema. The
  store holds \<^verbatim>\<open>{"channelId":"UC1"}\<close> and the hub answers 500: \<^verbatim>\<open>add\<close> throws, and the store
  is not the one before the call, since the read has deleted the key.
\<close>

theorem utils_add_hub_failure_deletes_corrupt_blob_counterexample:
  "fst (utils_addSubscription (test_platform JNull (\<lambda>t r. Response 500)) test_env ''UC1''
          (empty_world\<lparr>KV := [SUBSCRIPTION_KV_KEY \<mapsto>
              Doc (JObj [(''channelId'', JStr ''UC1'')])]\<rparr>))
     = Inl (Error ''Failed to subscribe!'')
   \<and> KV (empty_world\<lparr>KV := [SUBSCRIPTION_KV_KEY \<mapsto>
              Doc (JObj [(''channelId'', JStr ''UC1'')])]\<rparr>) SUBSCRIPTION_KV_KEY
     = Some (Doc (JObj [(''channelId'', JStr ''UC1'')]))
   \<and> KV (snd (utils_addSubscription (test_platform JNull (\<lambda>t r. Response 500)) test_env ''UC1''
               (empty_world\<lparr>KV := [SUBSCRIPTION_KV_KEY \<mapsto>
                   Doc (JObj [(''channelId'', JStr ''UC1'')])]\<rparr>))) SUBSCRIPTION_KV_KEY
     = None"
  by (simp add: utils_addSubscription_def utils_getAllSubscriptions_def
      io_defs hub_defs schema_defs test_defs)
section \<open>Corrupt stored state: proofs\<close>

text \<open>
  C5 on \<^verbatim>\<open>lib.ts\<close>. The stored text is \<^verbatim>\<open>{"channelId":"UC1"}\<close>: JSON, and not an array of
  subscriptions. \<^verbatim>\<open>getAllSubscriptions\<close> of \<^verbatim>\<open>lib.ts\<close> returns the object as it is and leaves
  it stored; that of \<^verbatim>\<open>utils.ts\<close> returns the empty list and deletes the key. On a stored
  text that is not JSON at all, \<^verbatim>\<open>{\<close>, both throw the \<^verbatim>\<open>SyntaxError\<close> of \<^verbatim>\<open>JSON.parse\<close>.
\<close>

theorem lib_getAllSubscriptions_returns_corrupt_blob:
  "fst (lib_getAllSubscriptions
          (empty_world\<lparr>KV := [''subscriptions'' \<mapsto> Doc (JObj [(''channelId'', JStr ''UC1'')])]\<rparr>))
     = Inr (JObj [(''channelId'', JStr ''UC1'')])
   \<and> KV (snd (lib_getAllSubscriptions
          (empty_world\<lparr>KV := [''subscriptions'' \<mapsto> Doc (JObj [(''channelId'', JStr ''UC1'')])]\<rparr>)))
        ''subscriptions''
     = Some (Doc (JObj [(''channelId'', JStr ''UC1'')]))
   \<and> fst (utils_getAllSubscriptions
          (empty_world\<lparr>KV := [SUBSCRIPTION_KV_KEY \<mapsto> Doc (JObj [(''channelId'', JStr ''UC1'')])]\<rparr>))
     = Inr []
   \<and> KV (snd (utils_getAllSubscriptions
          (empty_world\<lparr>KV := [SUBSCRIPTION_KV_KEY \<mapsto> Doc (JObj [(''channelId'', JStr ''UC1'')])]\<rparr>)))
        SUBSCRIPTION_KV_KEY
     = None
   \<and> fst (lib_getAllSubscriptions (empty_world\<lparr>KV := [''subscriptions'' \<mapsto> Raw ''{'']\<rparr>))
     = Inl SyntaxError
   \<and> fst (utils_getAllSubscriptions (empty_world\<lparr>KV := [SUBSCRIPTION_KV_KEY \<mapsto> Raw ''{'']\<rparr>))
     = Inl SyntaxError"
  by (simp add: lib_getAllSubscriptions_def utils_getAllSubscriptions_def io_defs schema_defs
      test_defs)

section \<open>Renewal: proofs\<close>

text \<open>
  \<^verbatim>\<open>renewAll\<close> of \<^verbatim>\<open>lib.ts\<close> on a stored list of subscriptions, with a network that answers
  every request. One round asks the hub, reports a failure at most once, and pushes the
  channel with the clock's reading after the hub's answer.
\<close>

lemma lib_renew_step:
  assumes "fetch P (ticks w) (hub_request (fst s) ''subscribe'' (API_SECRET e)
              (''https://'' @ APP_DOMAIN e @ ''/callback'')) \<noteq> Rejected"
  shows "lib_renew_loop P e (Subscription_json s # rest) acc w
     = lib_renew_loop P e rest
         (acc @ [JObj [(''channelId'', JStr (fst s)),
                       (''lastSubscribed'', JDate (Date_now P (Suc (ticks w))))]])
         (w\<lparr>ticks := Suc (ticks w), sent := sent w @ renew_requests P e (ticks w) (fst s)\<rparr>)"
proof (cases "fetch P (ticks w) (hub_request (fst s) ''subscribe'' (API_SECRET e)
              (''https://'' @ APP_DOMAIN e @ ''/callback''))")
  case Rejected
  with assms show ?thesis by simp
next
  case (Response status)
  then show ?thesis
    by (simp add: Subscription_json_def bind_def requestSubscription_eq renew_requests_def
        discordLog_dropped_def dropped_fetch_def return_def now_def)
qed

lemma lib_renew_loop_eq:
  assumes "\<forall>t r. fetch P t r \<noteq> Rejected"
  shows "lib_renew_loop P e (map Subscription_json subs) acc w
     = (Inr (acc @ map (\<lambda>(t, s). JObj [(''channelId'', JStr (fst s)),
                                          (''lastSubscribed'', JDate (Date_now P (Suc t)))])
                     (enumerate (ticks w) subs)),
        w\<lparr>ticks := ticks w + length subs,
          sent := sent w @ concat (map (\<lambda>(t, s). renew_requests P e t (fst s))
                                     (enumerate (ticks w) subs))\<rparr>)"
proof (induction subs arbitrary: acc w)
  case Nil
  show ?case by (simp add: return_def)
next
  case (Cons s subs)
  have "fetch P (ticks w) (hub_request (fst s) ''subscribe'' (API_SECRET e)
              (''https://'' @ APP_DOMAIN e @ ''/callback'')) \<noteq> Rejected"
    using assms by simp
  from lib_renew_step[OF this] show ?case
    by (simp add: Cons.IH)
qed

lemma toJSON_renewed:
  "(\<lambda>x. if x = JUndefined then JNull else x) \<circ> toJSON P \<circ>
     (\<lambda>(t, s). JObj [(''channelId'', JStr (fst s)),
                       (''lastSubscribed'', JDate (Date_now P (Suc t)))])
   = (\<lambda>(t, s). Subscription_json (fst s, Date_toISOString P (Date_now P (Suc t))))"
  by (rule ext) (simp add: Subscription_json_def split: prod.splits)

text \<open>
  The whole pass of \<^verbatim>\<open>lib.ts\<close>: it returns, it writes the store once, the list written has
  the channels of the list read, in order, each with the ISO text of the clock's reading
  in its round (whatever the hub answered), and each round sent its hub request followed
  by exactly one report when the answer was not a success.
\<close>

lemma lib_renewAll_eq:
  assumes g: "fst (lib_getAllSubscriptions w) = Inr (JArr (map Subscription_json subs))"
    and f: "\<forall>t r. fetch P t r \<noteq> Rejected"
  shows "lib_renewAll P e w
     = (Inr (),
        w\<lparr>ticks := Suc (Suc (ticks w + length subs)),
          sent := sent w @ concat (map (\<lambda>(t, s). renew_requests P e t (fst s))
                                     (enumerate (Suc (ticks w)) subs)),
          KV := (KV w)(''subscriptions'' \<mapsto>
                  Doc (JArr (map (\<lambda>(t, s). Subscription_json
                                      (fst s, Date_toISOString P (Date_now P (Suc t))))
                               (enumerate (Suc (ticks w)) subs))))\<rparr>)"
proof -
  have g': "lib_getAllSubscriptions w
            = (Inr (JArr (map Subscription_json subs)), w\<lparr>ticks := Suc (ticks w)\<rparr>)"
    using stored_parse[OF g] by (simp add: lib_getAllSubscriptions_eq)
  show ?thesis
    unfolding lib_renewAll_def
    by (simp add: bind_apply[of lib_getAllSubscriptions w, OF g'] js_iterate_def)
       (simp add: bind_def lib_renew_loop_eq[OF f] KV_put_def JSON_stringify_def toJSON_renewed)
qed

text \<open>
  The loop of \<^verbatim>\<open>utils.ts\<close> returns the subscriptions it was given, unchanged.
\<close>

lemma utils_renew_loop_eq:
  assumes "\<forall>t r. fetch P t r \<noteq> Rejected"
  shows "fst (utils_renew_loop P e subs acc w) = Inr (acc @ subs)"
proof (induction subs arbitrary: acc w)
  case Nil
  show ?case by (simp add: return_def)
next
  case (Cons s subs)
  obtain status where
    "fetch P (ticks w) (hub_request (channelId s) ''subscribe'' (API_SECRET e)
              (''https://'' @ APP_DOMAIN e @ ''/callback'')) = Response status"
    using assms by (metis fetch_result.exhaust)
  then show ?case
    by (simp add: bind_def requestSubscription_eq discordLog_dropped_def dropped_fetch_def
        return_def Cons.IH)
qed

text \<open>
  C6 on \<^verbatim>\<open>utils.ts\<close>. The store holds \<^verbatim>\<open>UC1\<close> with \<^verbatim>\<open>lastSubscribedAt\<close> 1000, the clock
  starts at 1700000000000 and the hub answers 204. After \<^verbatim>\<open>renewSubscriptionCronWorker\<close> the
  stored \<^verbatim>\<open>lastSubscribedAt\<close> is still 1000; \<^verbatim>\<open>renewAll\<close> of \<^verbatim>\<open>lib.ts\<close>, on its own store,
  writes the time of the pass.
\<close>

theorem renewSubscriptionCronWorker_keeps_old_timestamp:
  "fst (renewSubscriptionCronWorker (test_platform JNull (\<lambda>t r. Response 204)) test_env
          (empty_world\<lparr>KV := [SUBSCRIPTION_KV_KEY \<mapsto>
              Doc (JArr [subscription_json \<lparr>channelId = ''UC1'', lastSubscribedAt = Finite 1000\<rparr>])]\<rparr>))
     = Inr ()
   \<and> KV (snd (renewSubscriptionCronWorker (test_platform JNull (\<lambda>t r. Response 204)) test_env
          (empty_world\<lparr>KV := [SUBSCRIPTION_KV_KEY \<mapsto>
              Doc (JArr [subscription_json \<lparr>channelId = ''UC1'', lastSubscribedAt = Finite 1000\<rparr>])]\<rparr>)))
        SUBSCRIPTION_KV_KEY
     = Some (Doc (JArr [subscription_json \<lparr>channelId = ''UC1'', lastSubscribedAt = Finite 1000\<rparr>]))
   \<and> Date_now (test_platform JNull (\<lambda>t r. Response 204)) 0 = 1700000000000
   \<and> KV (snd (lib_renewAll (test_platform JNull (\<lambda>t r. Response 204)) test_env
          (empty_world\<lparr>KV := [''subscriptions'' \<mapsto>
              Doc (JArr [Subscription_json (''UC1'', ''ISO:1000'')])]\<rparr>)))
        ''subscriptions''
     = Some (Doc (JArr [Subscription_json (''UC1'', ''ISO:1700000000002'')]))"
  by (simp add: renewSubscriptionCronWorker_def lib_renewAll_def utils_getAllSubscriptions_def
      lib_getAllSubscriptions_def js_iterate_def Subscription_json_def
      io_defs hub_defs string_defs schema_defs test_defs)

section \<open>Classification: proofs\<close>

lemma map_of_without_link:
  "key \<noteq> ''link''
   \<Longrightarrow> map_of (filter (\<lambda>kv. fst kv \<noteq> ''link'') props) key = map_of props key"
  by (induction props) auto

lemma v_entry_link_added: "v_entry (JObj ((''link'', l) # props)) = v_entry (JObj props)"
  by (simp add: v_entry_def object_entries_def required_def)

lemma v_entry_link_removed:
  "v_entry (JObj (filter (\<lambda>kv. fst kv \<noteq> ''link'') props)) = v_entry (JObj props)"
  by (simp add: v_entry_def object_entries_def required_def map_of_without_link)

lemma v_entry_videoId:
  "v_entry (JObj props) = Output en
   \<Longrightarrow> map_of props ''yt:videoId'' = Some (JStr (yt_videoId en))"
  by (auto simp: v_entry_def object_entries_def required_def v_string_def
      split: option.splits safeParse.splits jsval.splits prod.splits)

text \<open>
  The transform of \<^verbatim>\<open>lib.ts\<close>. For a parsed feed with no deletion marker whose entry passes
  the entry schema (its output is \<open>en\<close>), \<^verbatim>\<open>callbackSchema\<close> gives a notification whose id is
  the entry's \<^verbatim>\<open>yt:videoId\<close> and whose link is the watch URL of that id; and whether and how
  the entry has a \<^verbatim>\<open>link\<close> property plays no part: the entry schema gives the same output
  with any \<^verbatim>\<open>link\<close> put in front and with every \<^verbatim>\<open>link\<close> taken out.
\<close>

lemma callbackSchema_synthesizes_link:
  assumes "map_of root ''feed'' = Some (JObj feed)"
    and "map_of feed ''at:deleted-entry'' = None"
    and "map_of feed ''entry'' = Some (JObj props)"
    and "v_entry (JObj props) = Output en"
  shows "(\<exists>video. callbackSchema (JObj root) = Output (Some video)
            \<and> video_id video = yt_videoId en
            \<and> video_link video = ''https://www.youtube.com/watch?v='' @ yt_videoId en)
       \<and> map_of props ''yt:videoId'' = Some (JStr (yt_videoId en))
       \<and> v_entry (JObj ((''link'', l) # props)) = Output en
       \<and> v_entry (JObj (filter (\<lambda>kv. fst kv \<noteq> ''link'') props)) = Output en"
  using assms v_entry_videoId[OF assms(4)]
  by (simp add: callbackSchema_def object_entries_def required_def v_feed_def v_optional_def
      transform_def v_entry_link_added v_entry_link_removed)

text \<open>
  The entry schema asks for \<^verbatim>\<open>Date\<close> objects in \<^verbatim>\<open>published\<close> and \<^verbatim>\<open>updated\<close>: an entry whose
  \<^verbatim>\<open>published\<close> is anything else, such as the text an XML parser returns, fails it.
\<close>

lemma v_entry_published_not_Date:
  assumes "map_of props ''published'' = Some v" and "\<forall>t. v \<noteq> JDate t"
  shows "v_entry (JObj props) = Issues"
  using assms
  by (cases v)
     (auto simp: v_entry_def object_entries_def required_def v_date_def
        split: safeParse.splits option.splits prod.splits)

text \<open>
  C3 on the feed of one video as the parser returns it (videoId \<^verbatim>\<open>v123\<close>, title \<^verbatim>\<open>T\<close>, channel
  \<^verbatim>\<open>c1\<close>, author \<^verbatim>\<open>A\<close>, the dates as texts, the link node without its attributes), pushed
  under a header that verifies. In \<^verbatim>\<open>lib.ts\<close> the feed fails \<^verbatim>\<open>callbackSchema\<close>, and \<^verbatim>\<open>callback\<close>
  returns with nothing sent: no notification is produced. The handler of \<^verbatim>\<open>part_001\<close> sends
  a notification, and its link is not the watch URL of \<^verbatim>\<open>v123\<close>: it is read from the link
  node, and is unavailable. Given the same entry with \<^verbatim>\<open>Date\<close> objects for the dates, the
  transform of \<^verbatim>\<open>lib.ts\<close> does give the watch URL.
\<close>

theorem sample_feed_link_not_synthesized:
  "callbackSchema sample_feed = Issues
   \<and> lib_callback (test_platform sample_feed (\<lambda>t r. Response 204)) test_env
        ''<feed/>'' (Some ''sha256=0abc0d07'') empty_world
     = (Inr (), empty_world)
   \<and> sent (snd (part001_post_callback (test_platform sample_feed (\<lambda>t r. Response 204))
                  test_env ''<feed/>'' (Some ''sha256=0abc0d07'') empty_world))
     = [discord_request ''https://discord.test/hook''
          ''New video from [A](http://a)\<newline>    **T**\<newline>    *Link unavailable*\<newline>    \<newline>    Published at <t:1704067200:f>\<newline>    Updated at <t:1704153600:f>'']
   \<and> callbackSchema (JObj [(''feed'', JObj [(''entry'', JObj dated_entry)])])
     = Output (Some \<lparr>video_id = ''v123'', video_title = ''T'',
                      video_link = ''https://www.youtube.com/watch?v=v123'',
                      channel_id = ''c1'', channel_name = ''A'', channel_link = ''http://a'',
                      published = 1704067200000, updated = 1704153600000\<rparr>)"
  by (simp add: part001_post_callback_def lib_callback_def lib_verifyNotificationSignature_def
      utils_sendDiscordNotification_def link_href_def new_Date_def io_defs hub_defs string_defs
      schema_defs test_defs)
section \<open>Entries that fail validation: proofs\<close>

text \<open>
  \<^verbatim>\<open>lib.ts\<close>: an entry that lacks one of the required properties fails the entry schema, the
  feed then gives issues (or null, when it also has a deletion marker), and \<^verbatim>\<open>callback\<close>
  returns with the world as it was.
\<close>

lemma v_entry_missing:
  assumes "key \<in> set [''yt:videoId'', ''title'', ''yt:channelId'', ''author'', ''published'',
                        ''updated'']"
    and "map_of props key = None"
  shows "v_entry (JObj props) = Issues"
  using assms
  by (auto simp: v_entry_def object_entries_def required_def
      split: safeParse.splits option.splits prod.splits)

lemma callbackSchema_missing:
  assumes "map_of root ''feed'' = Some (JObj feed)"
    and "map_of feed ''entry'' = Some (JObj props)"
    and "key \<in> set [''yt:videoId'', ''title'', ''yt:channelId'', ''author'', ''published'',
                      ''updated'']"
    and "map_of props key = None"
  shows "callbackSchema (JObj root) = Issues \<or> callbackSchema (JObj root) = Output None"
  using assms(1,2) v_entry_missing[OF assms(3,4)]
  by (auto simp: callbackSchema_def object_entries_def required_def v_feed_def v_optional_def
      transform_def split: option.splits)

lemma lib_callback_ignores_invalid_entry:
  assumes "lib_verifyNotificationSignature P (API_SECRET e) sig xml = Inr True"
    and "sig \<noteq> []"
    and "XMLParser_parse P False xml = Inr (JObj root)"
    and "map_of root ''feed'' = Some (JObj feed)"
    and "map_of feed ''entry'' = Some (JObj props)"
    and "key \<in> set [''yt:videoId'', ''title'', ''yt:channelId'', ''author'', ''published'',
                      ''updated'']"
    and "map_of props key = None"
  shows "lib_callback P e xml (Some sig) w = (Inr (), w)"
  using assms(1,2,3) callbackSchema_missing[OF assms(4,5,6,7)]
  by (auto simp: lib_callback_def return_def)

text \<open>
  C4 on \<^verbatim>\<open>part_001\<close>. The feed is the sample feed with one property of its entry left out.
  Without \<^verbatim>\<open>title\<close> the handler of \<^verbatim>\<open>part_001\<close> forwards a notification whose title reads
  \<^verbatim>\<open>undefined\<close>; without \<^verbatim>\<open>author\<close> it throws a \<^verbatim>\<open>TypeError\<close> to the router.
  \<^verbatim>\<open>YoutubeNotifier.callback\<close> of \<^verbatim>\<open>lib.ts\<close>, given the feed without \<^verbatim>\<open>title\<close> under a header
  that verifies, returns and sends nothing.
\<close>

theorem part001_forwards_invalid_entry:
  "sent (snd (part001_post_callback
                (test_platform (sample_feed_without ''title'') (\<lambda>t r. Response 204)) test_env
                ''<feed/>'' (Some ''sha256=0abc0d07'') empty_world))
     = [discord_request ''https://discord.test/hook''
          ''New video from [A](http://a)\<newline>    **undefined**\<newline>    *Link unavailable*\<newline>    \<newline>    Published at <t:1704067200:f>\<newline>    Updated at <t:1704153600:f>'']
   \<and> fst (part001_post_callback
            (test_platform (sample_feed_without ''author'') (\<lambda>t r. Response 204)) test_env
            ''<feed/>'' (Some ''sha256=0abc0d07'') empty_world)
     = Inl TypeError
   \<and> lib_callback (test_platform (sample_feed_without ''title'') (\<lambda>t r. Response 204)) test_env
        ''<feed/>'' (Some ''sha256=0abc0d07'') empty_world
     = (Inr (), empty_world)"
  by (simp add: part001_post_callback_def lib_callback_def lib_verifyNotificationSignature_def
      utils_sendDiscordNotification_def link_href_def new_Date_def io_defs hub_defs string_defs
      schema_defs test_defs)

end
